theory Spec2Isabelle
  imports Complex_Main "HOL-Library.Word"
begin

section \<open>Gas station handler: data\<close>

text \<open>
  Go values are modelled as follows. A \<open>cfxtypes.Hash\<close> is a Go string. A pointer to a
  big integer (\<open>*hexutil.Big\<close>) that the node may leave out is an \<open>int option\<close>, \<open>None\<close>
  being the nil pointer; \<open>uint64\<close> is \<open>64 word\<close>. A Go call returning \<open>(T, error)\<close> is a
  value of \<open>error + T\<close>. A run-time panic (index out of range, nil dereference, division
  by zero) is the outcome \<open>Panicked\<close>.
\<close>

type_synonym Hash = string

type_synonym uint64 = "64 word"

text \<open>
  Errors. \<open>utils.IsRPCJSONError\<close> (go-rpc-provider) recognises the errors that are
  well-formed JSON-RPC error responses of a node; every other error (transport failure,
  \<open>errors.New\<close>) is a plain error.
\<close>

datatype error = JsonError string | PlainError string | StationStatusClientUnavailable

fun IsRPCJSONError :: "error \<Rightarrow> bool" where
  "IsRPCJSONError (JsonError m) = True"
| "IsRPCJSONError (PlainError m) = False"
| "IsRPCJSONError StationStatusClientUnavailable = False"

datatype 'a outcome = Panicked | Returned 'a

text \<open>The value held by the \<open>atomic.Value\<close> status cell once something is stored.\<close>

datatype station_status = StationStatusOk | StatusError error

text \<open>
  Modelled from the spec: \<open>StationStatusOk\<close> and \<open>StationStatusClientUnavailable\<close> are
  declared outside this file. The spec (3) lists operational and
  client-cluster-unavailable as values of the one station status, next to the error of
  the last sync: the two constants are values of one Go type, and the errors that come
  from a member or from \<open>errors.New\<close> are values of other types. The model tells these
  kinds apart and no more (in the source two errors of a member can differ in concrete
  type as well).
\<close>

datatype concreteType = StatusType | JsonErrorType | PlainErrorType

fun concreteTypeOf :: "station_status \<Rightarrow> concreteType" where
  "concreteTypeOf StationStatusOk = StatusType"
| "concreteTypeOf (StatusError StationStatusClientUnavailable) = StatusType"
| "concreteTypeOf (StatusError (JsonError m)) = JsonErrorType"
| "concreteTypeOf (StatusError (PlainError m)) = PlainErrorType"

record Transaction =
  TxHash :: Hash
  GasPrice :: "int option"
  MaxPriorityFeePerGas :: "int option"
  MaxFeePerGas :: "int option"
  ExecutedInBlock :: bool

record Block =
  Hash :: Hash
  ParentHash :: Hash
  BlockNumber :: "int option"
  GasUsed :: "int option"
  GasLimit :: "int option"
  BaseFeePerGas :: "int option"
  Transactions :: "Transaction list"

record BlockSummary =
  SummaryBaseFeePerGas :: "int option"

text \<open>
  One cluster member (\<open>sdk.ClientOperator\<close>), as the replies it gives during one
  attempt: every call returns, and a reply without error carries its value (the block,
  the list, the number). One attempt calls a member once for each request, so a reply
  is a function of the request. \<open>GetEpochNumber\<close> and \<open>GetBlockSummaryByEpoch\<close> are
  only ever called with \<open>EpochLatestState\<close>.
\<close>

record Client =
  GetEpochNumber :: "error + int"
  GetBlockByEpoch :: "uint64 \<Rightarrow> error + Block"
  GetBlocksByEpoch :: "uint64 \<Rightarrow> error + Hash list"
  GetBlockByHashWithPivotAssumption :: "Hash \<Rightarrow> Hash \<Rightarrow> uint64 \<Rightarrow> error + Block"
  GetBlockSummaryByEpoch :: "error + BlockSummary"
  GetMaxPriorityFeePerGas :: "error + int"

record TxnPriorityFee =
  txnHash :: string
  tip :: int

text \<open>
  \<open>gasUsedRatio\<close> is a \<open>float64\<close> in the source. The only value the handler ever stores
  there is an integer converted by \<open>big.Int.Float64\<close>, which is exact below \<open>2 ^ 53\<close>;
  the model keeps the number itself, as a rational.
\<close>

record BlockPriorityFee =
  number :: uint64
  hash :: string
  baseFee :: "int option"
  gasUsedRatio :: rat
  txnTips :: "TxnPriorityFee list"

text \<open>
  Modelled from the spec: \<open>PriorityFeeWindow\<close> with \<open>NewPriorityFeeWindow\<close>, \<open>Push\<close> and
  \<open>Remove\<close>, and \<open>BlockPriorityFee.Append\<close>, are declared outside this file. The spec
  (3 and 4.2): a bounded, insertion-ordered sequence of records; push inserts at the
  newest end and evicts the oldest when the size exceeds the capacity; removal by hashes
  deletes every record whose hash is among those given, wherever it is; a record holds
  the ordered list of its transactions' tip records.
\<close>

record PriorityFeeWindow =
  capacity :: nat
  records :: "BlockPriorityFee list"

definition NewPriorityFeeWindow :: "nat \<Rightarrow> PriorityFeeWindow" where
  "NewPriorityFeeWindow n = \<lparr>capacity = n, records = []\<rparr>"

definition Push :: "BlockPriorityFee \<Rightarrow> PriorityFeeWindow \<Rightarrow> PriorityFeeWindow" where
  "Push blockFee w =
     (let rs = records w @ [blockFee]
      in w\<lparr>records := (if length rs > capacity w then tl rs else rs)\<rparr>)"

definition Remove :: "string list \<Rightarrow> PriorityFeeWindow \<Rightarrow> PriorityFeeWindow" where
  "Remove blockHashes w = w\<lparr>records := filter (\<lambda>r. hash r \<notin> set blockHashes) (records w)\<rparr>"

definition Append :: "TxnPriorityFee list \<Rightarrow> BlockPriorityFee \<Rightarrow> BlockPriorityFee" where
  "Append tips b = b\<lparr>txnTips := txnTips b @ tips\<rparr>"

text \<open>
  The handler. \<open>status\<close> is \<open>None\<close> until the first \<open>Store\<close> (\<open>atomic.Value.Load\<close> then
  gives nil). The cluster \<open>h.clients\<close> is not a field: each operation takes the member,
  or the list of members, it talks to, with the replies they give at that moment.
\<close>

record handler =
  status :: "station_status option"
  cliIndex :: nat
  fromEpoch :: uint64
  epochBlockHashList :: "Hash list list"
  window :: PriorityFeeWindow

text \<open>
  \<open>atomic.Value.Store\<close>: the first value stored fixes the concrete type of the cell,
  and storing a value of another concrete type panics.
\<close>

definition Store :: "station_status \<Rightarrow> handler \<Rightarrow> handler outcome" where
  "Store v h =
     (case status h of
        None \<Rightarrow> Returned (h\<lparr>status := Some v\<rparr>)
      | Some old \<Rightarrow>
          if concreteTypeOf old = concreteTypeOf v then Returned (h\<lparr>status := Some v\<rparr>)
          else Panicked)"

definition maxCachedBlockHashEpochs :: nat where
  "maxCachedBlockHashEpochs = 100"

section \<open>Epoch hash history\<close>

definition pop :: "handler \<Rightarrow> Hash list \<times> handler" where
  "pop h =
     (if length (epochBlockHashList h) = 0 then ([], h)
      else (last (epochBlockHashList h),
            h\<lparr>epochBlockHashList := butlast (epochBlockHashList h)\<rparr>))"

definition prevEpochPivotBlockHash :: "handler \<Rightarrow> Hash outcome" where
  "prevEpochPivotBlockHash h =
     (if length (epochBlockHashList h) = 0 then Returned ''''
      else (let blockHashes = last (epochBlockHashList h)
            in if blockHashes = [] then Panicked else Returned (last blockHashes)))"

definition push :: "Hash list \<Rightarrow> handler \<Rightarrow> handler" where
  "push blockHashes h =
     (let l = epochBlockHashList h @ [blockHashes]
      in h\<lparr>epochBlockHashList := (if length l > maxCachedBlockHashEpochs then tl l else l)\<rparr>)"

definition handleReorg :: "handler \<Rightarrow> handler" where
  "handleReorg h = (case pop h of (blockHashes, h') \<Rightarrow> h'\<lparr>window := Remove blockHashes (window h')\<rparr>)"

section \<open>Ingesting a block\<close>

text \<open>
  \<open>big.Int.Div\<close> is Euclidean division (the remainder is never negative) and panics on
  a zero divisor.
\<close>

definition bigDiv :: "int \<Rightarrow> int \<Rightarrow> int outcome" where
  "bigDiv x y =
     (if y = 0 then Panicked
      else if y > 0 then Returned (x div y)
      else Returned (- (x div (- y))))"

text \<open>
  Modelled from the spec: \<open>util.IsTxExecutedInBlock\<close> is declared outside this file.
  The spec (4.1): a transaction is eligible only if it was actually executed within this
  specific block. The model's transaction carries that verdict as a field.
\<close>

definition IsTxExecutedInBlock :: "Transaction \<Rightarrow> bool" where
  "IsTxExecutedInBlock txn = ExecutedInBlock txn"

text \<open>The body of the loop of \<open>handleBlock\<close> for an executed transaction: its tip.\<close>

definition txnTip :: "Block \<Rightarrow> Transaction \<Rightarrow> int outcome" where
  "txnTip block txn =
     (case MaxPriorityFeePerGas txn of
        Some p \<Rightarrow> Returned p
      | None \<Rightarrow>
          (case (case MaxFeePerGas txn of Some m \<Rightarrow> Some m | None \<Rightarrow> GasPrice txn) of
             None \<Rightarrow> Panicked
           | Some maxFeePerGas \<Rightarrow>
               (case BaseFeePerGas block of
                  None \<Rightarrow> Panicked
                | Some baseFeePerGas \<Rightarrow> Returned (maxFeePerGas - baseFeePerGas))))"

fun collectTxnTips :: "Block \<Rightarrow> Transaction list \<Rightarrow> TxnPriorityFee list outcome" where
  "collectTxnTips block [] = Returned []"
| "collectTxnTips block (txn # txns) =
     (if \<not> IsTxExecutedInBlock txn then collectTxnTips block txns
      else (case txnTip block txn of
              Panicked \<Rightarrow> Panicked
            | Returned t \<Rightarrow>
                (case collectTxnTips block txns of
                   Panicked \<Rightarrow> Panicked
                 | Returned ts \<Rightarrow> Returned (\<lparr>txnHash = TxHash txn, tip = t\<rparr> # ts))))"

definition handleBlock :: "Block \<Rightarrow> handler \<Rightarrow> handler outcome" where
  "handleBlock block h =
     (case (GasUsed block, GasLimit block, BlockNumber block) of
        (Some gasUsed, Some gasLimit, Some blockNumber) \<Rightarrow>
          (case bigDiv gasUsed gasLimit of
             Panicked \<Rightarrow> Panicked
           | Returned q \<Rightarrow>
               (let blockFee = \<lparr>number = word_of_int blockNumber, hash = Hash block,
                                baseFee = BaseFeePerGas block, gasUsedRatio = of_int q,
                                txnTips = []\<rparr>
                in case collectTxnTips block (Transactions block) of
                     Panicked \<Rightarrow> Panicked
                   | Returned tips \<Rightarrow>
                       Returned (h\<lparr>window := Push (Append tips blockFee) (window h)\<rparr>)))
      | _ \<Rightarrow> Panicked)"

fun handleBlocks :: "Block list \<Rightarrow> handler \<Rightarrow> handler outcome" where
  "handleBlocks [] h = Returned h"
| "handleBlocks (block # blocks) h =
     (case handleBlock block h of
        Panicked \<Rightarrow> Panicked
      | Returned h' \<Rightarrow> handleBlocks blocks h')"

section \<open>One sync step against one member\<close>

text \<open>The loop of \<open>fetchBlocks\<close> over all hashes but the last.\<close>

fun fetchNonPivotBlocks :: "Client \<Rightarrow> Hash \<Rightarrow> uint64 \<Rightarrow> Hash list \<Rightarrow> error + Block list" where
  "fetchNonPivotBlocks cfx pivotHash ep [] = Inr []"
| "fetchNonPivotBlocks cfx pivotHash ep (bh # bhs) =
     (case GetBlockByHashWithPivotAssumption cfx bh pivotHash ep of
        Inl err \<Rightarrow> Inl err
      | Inr block \<Rightarrow>
          (case fetchNonPivotBlocks cfx pivotHash ep bhs of
             Inl err \<Rightarrow> Inl err
           | Inr blocks \<Rightarrow> Inr (block # blocks)))"

definition fetchBlocks ::
  "handler \<Rightarrow> Client \<Rightarrow> uint64 \<Rightarrow> Block \<Rightarrow> (error + Hash list \<times> Block list) outcome" where
  "fetchBlocks h cfx epoch pivotBlock =
     (case GetBlocksByEpoch cfx epoch of
        Inl err \<Rightarrow> Returned (Inl err)
      | Inr blockHashes \<Rightarrow>
          if blockHashes = [] then Panicked
          else (let pivotHash = last blockHashes
                in if Hash pivotBlock \<noteq> pivotHash
                   then Returned (Inl (PlainError ''pivot switched''))
                   else (case fetchNonPivotBlocks cfx pivotHash (fromEpoch h) (butlast blockHashes) of
                           Inl err \<Rightarrow> Returned (Inl err)
                         | Inr blocks \<Rightarrow> Returned (Inr (blockHashes, blocks @ [pivotBlock])))))"

text \<open>
  \<open>trySync\<close> returns the handler as it left it, the \<open>complete\<close> flag and the error
  (\<open>None\<close> for nil).
\<close>

definition trySync :: "Client \<Rightarrow> handler \<Rightarrow> (handler \<times> bool \<times> error option) outcome" where
  "trySync cfx h =
     (case GetEpochNumber cfx of
        Inl err \<Rightarrow> Returned (h, False, Some err)
      | Inr latestEpoch \<Rightarrow>
          (let latestEpochNo = (word_of_int latestEpoch :: uint64)
           in if fromEpoch h > latestEpochNo then Returned (h, True, None)
              else (case GetBlockByEpoch cfx (fromEpoch h) of
                      Inl err \<Rightarrow> Returned (h, False, Some err)
                    | Inr pivotBlock \<Rightarrow>
                        (case prevEpochPivotBlockHash h of
                           Panicked \<Rightarrow> Panicked
                         | Returned prevEpochBh \<Rightarrow>
                             if length prevEpochBh > 0 \<and> prevEpochBh \<noteq> ParentHash pivotBlock
                             then (let h1 = handleReorg h
                                   in Returned (h1\<lparr>fromEpoch := fromEpoch h1 - 1\<rparr>, False, None))
                             else (case fetchBlocks h cfx (fromEpoch h) pivotBlock of
                                     Panicked \<Rightarrow> Panicked
                                   | Returned (Inl err) \<Rightarrow> Returned (h, False, Some err)
                                   | Returned (Inr (blockHashes, blocks)) \<Rightarrow>
                                       (case handleBlocks blocks h of
                                          Panicked \<Rightarrow> Panicked
                                        | Returned h2 \<Rightarrow>
                                            (let h3 = push blockHashes h2
                                             in Returned (h3\<lparr>fromEpoch := fromEpoch h3 + 1\<rparr>,
                                                          False, None))))))))"

section \<open>One sync attempt over the cluster\<close>

text \<open>
  The loop of \<open>sync\<close>. It has no bound of its own, so it is a partial function whose
  value \<open>None\<close> would mean that the loop runs forever. Next to the outcome it returns
  the indices of the members it called \<open>trySync\<close> on, in order (a ghost value: the
  source does not keep it). Indexing \<open>h.clients\<close> out of range panics.
\<close>

partial_function (option) syncLoop ::
  "Client list \<Rightarrow> nat \<Rightarrow> handler \<Rightarrow> nat list
     \<Rightarrow> ((handler \<times> bool \<times> error option) outcome \<times> nat list) option" where
  "syncLoop clients idx h tried =
     (if idx \<ge> length clients then Some (Panicked, tried)
      else (case trySync (clients ! idx) h of
              Panicked \<Rightarrow> Some (Panicked, tried @ [idx])
            | Returned (h', isComplete, err) \<Rightarrow>
                if (case err of None \<Rightarrow> True | Some e \<Rightarrow> IsRPCJSONError e)
                then Some (Returned (h'\<lparr>cliIndex := idx\<rparr>, isComplete, err), tried @ [idx])
                else (let idx' = (idx + 1) mod length clients
                      in if idx' = cliIndex h'
                         then Some (Returned (h', isComplete, err), tried @ [idx])
                         else syncLoop clients idx' h' (tried @ [idx]))))"

definition sync ::
  "Client list \<Rightarrow> handler \<Rightarrow> ((handler \<times> bool \<times> error option) outcome \<times> nat list) option" where
  "sync clients h =
     (if length clients = 0
      then Some (Returned (h, False, Some StationStatusClientUnavailable), [])
      else (let h' = h\<lparr>cliIndex := cliIndex h mod length clients\<rparr>
            in syncLoop clients (cliIndex h') h' []))"

definition updateStatus :: "error option \<Rightarrow> handler \<Rightarrow> handler outcome" where
  "updateStatus err h =
     (case err of
        None \<Rightarrow> Store StationStatusOk h
      | Some e \<Rightarrow>
          if \<not> IsRPCJSONError e then Store (StatusError e) h
          else Store StationStatusOk h)"

text \<open>
  The sync branch of \<open>run\<close>, taken once for each element of the list: the element is
  the cluster as it is at that attempt (\<open>refreshClusterNodes\<close> may have replaced it in
  between), with the replies its members give then. A panic ends the process.
\<close>

fun runSyncs :: "Client list list \<Rightarrow> handler \<Rightarrow> handler outcome option" where
  "runSyncs [] h = Some (Returned h)"
| "runSyncs (clients # rest) h =
     (case sync clients h of
        None \<Rightarrow> None
      | Some (Panicked, tried) \<Rightarrow> Some Panicked
      | Some (Returned (h', isComplete, err), tried) \<Rightarrow>
          (case updateStatus err h' of
             Panicked \<Rightarrow> Some Panicked
           | Returned h'' \<Rightarrow> runSyncs rest h''))"

text \<open>The handler as \<open>MustNewCfxGasStationHandlerFromViper\<close> builds it.\<close>

definition newHandler :: "nat \<Rightarrow> uint64 \<Rightarrow> nat \<Rightarrow> handler" where
  "newHandler cliIdx startEpoch historicalPeekCount =
     \<lparr>status = None, cliIndex = cliIdx, fromEpoch = startEpoch,
      epochBlockHashList = [], window = NewPriorityFeeWindow historicalPeekCount\<rparr>"

section \<open>Suggestions\<close>

text \<open>
  Modelled from the spec: the statistics (\<open>GasStats\<close>, the result of
  \<open>PriorityFeeWindow.Calculate\<close>) and the response types (\<open>types.SuggestedGasFees\<close>,
  \<open>types.GasFeeEstimation\<close>) are declared outside this file; the fields are those
  \<open>Suggest\<close> reads and writes. \<open>AvgPercentiledPriorityFee\<close> is \<open>None\<close> for the nil
  slice. The spec (3): the trends are qualitative indicators, rising, falling or flat.
  \<open>ToHexBigSlice\<close> only changes the Go type of the numbers, and is the identity here.
\<close>

datatype GasFeeTrend = Rising | Falling | Flat

record GasStats =
  AvgPercentiledPriorityFee :: "int list option"
  NetworkCongestion :: rat
  LatestPriorityFeeRange :: "int list"
  HistoricalPriorityFeeRange :: "int list"
  HistoricalBaseFeeRange :: "int list"
  PriorityFeeTrend :: GasFeeTrend
  BaseFeeTrend :: GasFeeTrend

record GasFeeEstimation =
  SuggestedMaxPriorityFeePerGas :: int
  SuggestedMaxFeePerGas :: int

record SuggestedGasFees =
  Low :: GasFeeEstimation
  Medium :: GasFeeEstimation
  High :: GasFeeEstimation
  EstimatedBaseFee :: "int option"
  NetworkCongestion' :: rat
  LatestPriorityFeeRange' :: "int list"
  HistoricalPriorityFeeRange' :: "int list"
  HistoricalBaseFeeRange' :: "int list"
  PriorityFeeTrend' :: GasFeeTrend
  BaseFeeTrend' :: GasFeeTrend

text \<open>What \<open>Suggest\<close> does outside the handler, in order (a ghost value).\<close>

datatype effect = CallGetBlockSummaryByEpoch | CallGetMaxPriorityFeePerGas | ReadWindow

definition ToHexBigSlice :: "int list \<Rightarrow> int list" where
  "ToHexBigSlice xs = xs"

text \<open>
  The \<open>return\<close> statement of \<open>Suggest\<close>: it indexes \<open>priorityFees\<close> at 0, 1 and 2 and
  adds each to the base fee of the latest block, a nil pointer when the node left it out.
\<close>

definition suggestedFees ::
  "BlockSummary \<Rightarrow> GasStats \<Rightarrow> int list \<Rightarrow> (error + SuggestedGasFees) outcome" where
  "suggestedFees latestBlock stats priorityFees =
     (if length priorityFees < 3 then Panicked
      else (case SummaryBaseFeePerGas latestBlock of
              None \<Rightarrow> Panicked
            | Some baseFeePerGas \<Rightarrow>
                Returned (Inr
                  \<lparr>Low = \<lparr>SuggestedMaxPriorityFeePerGas = priorityFees ! 0,
                          SuggestedMaxFeePerGas = baseFeePerGas + priorityFees ! 0\<rparr>,
                   Medium = \<lparr>SuggestedMaxPriorityFeePerGas = priorityFees ! 1,
                             SuggestedMaxFeePerGas = baseFeePerGas + priorityFees ! 1\<rparr>,
                   High = \<lparr>SuggestedMaxPriorityFeePerGas = priorityFees ! 2,
                           SuggestedMaxFeePerGas = baseFeePerGas + priorityFees ! 2\<rparr>,
                   EstimatedBaseFee = SummaryBaseFeePerGas latestBlock,
                   NetworkCongestion' = NetworkCongestion stats,
                   LatestPriorityFeeRange' = ToHexBigSlice (LatestPriorityFeeRange stats),
                   HistoricalPriorityFeeRange' = ToHexBigSlice (HistoricalPriorityFeeRange stats),
                   HistoricalBaseFeeRange' = ToHexBigSlice (HistoricalBaseFeeRange stats),
                   PriorityFeeTrend' = PriorityFeeTrend stats,
                   BaseFeeTrend' = BaseFeeTrend stats\<rparr>)))"

text \<open>
  \<open>Suggest\<close>. Its first argument stands for \<open>h.window.Calculate(h.config.Percentiles[:])\<close>,
  which is declared outside this file. With nothing stored in the status cell yet, the
  type assertion \<open>status.(error)\<close> is applied to nil and panics.
\<close>

definition Suggest ::
  "(PriorityFeeWindow \<Rightarrow> GasStats) \<Rightarrow> Client \<Rightarrow> handler
     \<Rightarrow> (error + SuggestedGasFees) outcome \<times> effect list" where
  "Suggest Calculate cfx h =
     (case status h of
        None \<Rightarrow> (Panicked, [])
      | Some (StatusError err) \<Rightarrow> (Returned (Inl err), [])
      | Some StationStatusOk \<Rightarrow>
          (case GetBlockSummaryByEpoch cfx of
             Inl err \<Rightarrow> (Returned (Inl err), [CallGetBlockSummaryByEpoch])
           | Inr latestBlock \<Rightarrow>
               (let stats = Calculate (window h)
                in case AvgPercentiledPriorityFee stats of
                     Some priorityFees \<Rightarrow>
                       (suggestedFees latestBlock stats priorityFees,
                        [CallGetBlockSummaryByEpoch, ReadWindow])
                   | None \<Rightarrow>
                       (case GetMaxPriorityFeePerGas cfx of
                          Inl err \<Rightarrow>
                            (Returned (Inl err),
                             [CallGetBlockSummaryByEpoch, ReadWindow, CallGetMaxPriorityFeePerGas])
                        | Inr oracleFee \<Rightarrow>
                            (suggestedFees latestBlock stats (replicate 3 oracleFee),
                             [CallGetBlockSummaryByEpoch, ReadWindow,
                              CallGetMaxPriorityFeePerGas])))))"

section \<open>Access control middleware\<close>

text \<open>
  The request context, as far as the middleware looks into it: the reply of
  \<open>handlers.VipStatusFromContext\<close> (\<open>Some\<close> when its flag is true), and the rate registry
  stored under \<open>handlers.CtxKeyRateRegistry\<close>, if there is one, given by the reply of its
  \<open>SVipStatusFromContext\<close> for this context (the level and the flag).
\<close>

record Context =
  VipStatusFromContext :: "nat option"
  CtxKeyRateRegistry :: "(int \<times> bool) option"

record JsonRpcMessage =
  ID :: string
  Method :: string
  Params :: string
  Error :: "string option"

record accessControlConfig =
  VipOnlyAcl :: "string list"

definition errAccessForbidden :: string where
  "errAccessForbidden = ''access forbidden''"

text \<open>
  \<open>JsonRpcMessage.ErrorResponse\<close> (go-rpc-provider): a response to the message, with
  its identifier, carrying the error.
\<close>

definition ErrorResponse :: "JsonRpcMessage \<Rightarrow> string \<Rightarrow> JsonRpcMessage" where
  "ErrorResponse msg err = \<lparr>ID = ID msg, Method = [], Params = [], Error = Some err\<rparr>"

text \<open>The hash set of restricted methods, built by the loop over the configured list.\<close>

definition aclOf :: "accessControlConfig \<Rightarrow> (string \<rightharpoonup> unit)" where
  "aclOf conf = fold (\<lambda>method acl. acl(method \<mapsto> ())) (VipOnlyAcl conf) Map.empty"

text \<open>
  A handler of call messages has effects, so it is a function on a state \<open>'s\<close>; the
  middleware wraps the next handler.
\<close>

type_synonym 's HandleCallMsgFunc = "Context \<Rightarrow> JsonRpcMessage \<Rightarrow> 's \<Rightarrow> JsonRpcMessage \<times> 's"

definition MustNewVipOnlyAccessControlMiddlewareFromViper ::
  "accessControlConfig \<Rightarrow> 's HandleCallMsgFunc \<Rightarrow> 's HandleCallMsgFunc" where
  "MustNewVipOnlyAccessControlMiddlewareFromViper conf next ctx msg s =
     (let acl = aclOf conf
      in if acl (Method msg) = None then next ctx msg s
         else (case VipStatusFromContext ctx of
                 Some vip \<Rightarrow> next ctx msg s
               | None \<Rightarrow>
                   (case CtxKeyRateRegistry ctx of
                      Some (svip, ok) \<Rightarrow>
                        if ok \<and> svip > 0 then next ctx msg s
                        else (ErrorResponse msg errAccessForbidden, s)
                    | None \<Rightarrow> (ErrorResponse msg errAccessForbidden, s))))"

section \<open>The properties, in the words of the specification\<close>

text \<open>
  An attempt on one member stops the failover when it returns no error or an error
  that is a JSON-RPC error.
\<close>

definition stops :: "error option \<Rightarrow> bool" where
  "stops err = (case err of None \<Rightarrow> True | Some e \<Rightarrow> IsRPCJSONError e)"

text \<open>
  One full pass over a cluster of \<open>n\<close> members: the indices in order from the
  preferred one, wrapping around.
\<close>

definition walk :: "nat \<Rightarrow> nat \<Rightarrow> nat list" where
  "walk n start = map (\<lambda>k. (start + k) mod n) [0..<n]"

text \<open>
  Failover as the specification words it: try the members of a list of indices in
  order, stop at the first attempt that stops the failover and remember that member as
  the preferred one, and report the last error once the list is used up.
\<close>

fun syncWalk ::
  "Client list \<Rightarrow> handler \<Rightarrow> nat list \<Rightarrow> nat list
     \<Rightarrow> (handler \<times> bool \<times> error option) outcome \<times> nat list" where
  "syncWalk clients h tried [] = (Returned (h, False, None), tried)"
| "syncWalk clients h tried (i # rest) =
     (case trySync (clients ! i) h of
        Panicked \<Rightarrow> (Panicked, tried @ [i])
      | Returned (h', isComplete, err) \<Rightarrow>
          if stops err then (Returned (h'\<lparr>cliIndex := i\<rparr>, isComplete, err), tried @ [i])
          else if rest = [] then (Returned (h', isComplete, err), tried @ [i])
          else syncWalk clients h' (tried @ [i]) rest)"

text \<open>The attempt on a member fails: it returns an error that is not a JSON-RPC error.\<close>

definition attemptFails :: "Client \<Rightarrow> handler \<Rightarrow> bool" where
  "attemptFails cfx h =
     (case trySync cfx h of
        Panicked \<Rightarrow> False
      | Returned (h', isComplete, err) \<Rightarrow> \<not> stops err)"

text \<open>
  What \<open>sync\<close> returns when member \<open>i\<close> is the last one it tried: that member's
  result, with the member made the preferred one, when its attempt stops the failover;
  otherwise the pass is complete and the result is that member's error, on the handler
  as it was.
\<close>

definition finalOutcome ::
  "Client list \<Rightarrow> handler \<Rightarrow> nat \<Rightarrow> bool \<Rightarrow> (handler \<times> bool \<times> error option) outcome \<Rightarrow> bool" where
  "finalOutcome clients h i fullPass out =
     (case trySync (clients ! i) h of
        Panicked \<Rightarrow> out = Panicked
      | Returned (h', isComplete, err) \<Rightarrow>
          if stops err then out = Returned (h'\<lparr>cliIndex := i\<rparr>, isComplete, err)
          else fullPass \<and> out = Returned (h, False, err))"

text \<open>
  The tip of a transaction as the specification derives it: the explicit priority fee
  when present, otherwise the maximum fee per gas, or the legacy gas price when that is
  absent, minus the base fee of the block.
\<close>

definition tipMatches :: "Block \<Rightarrow> Transaction \<Rightarrow> int \<Rightarrow> bool" where
  "tipMatches block txn t =
     (case MaxPriorityFeePerGas txn of
        Some p \<Rightarrow> t = p
      | None \<Rightarrow>
          (case BaseFeePerGas block of
             None \<Rightarrow> False
           | Some b \<Rightarrow>
               (case MaxFeePerGas txn of
                  Some m \<Rightarrow> t = m - b
                | None \<Rightarrow> (case GasPrice txn of Some g \<Rightarrow> t = g - b | None \<Rightarrow> False))))"

text \<open>The fields that derivation reads are there (no nil pointer is dereferenced).\<close>

definition tipDerivable :: "Block \<Rightarrow> Transaction \<Rightarrow> bool" where
  "tipDerivable block txn =
     (MaxPriorityFeePerGas txn \<noteq> None \<or>
      (BaseFeePerGas block \<noteq> None \<and> (MaxFeePerGas txn \<noteq> None \<or> GasPrice txn \<noteq> None)))"

text \<open>
  The history holds lists of block hashes: every entry has a last hash, the pivot
  hash of its epoch, and that hash is not the empty string.
\<close>

definition histOK :: "handler \<Rightarrow> bool" where
  "histOK h \<longleftrightarrow>
     (\<forall>blockHashes \<in> set (epochBlockHashList h). blockHashes \<noteq> [] \<and> last blockHashes \<noteq> '''')"

text \<open>The pivot blocks the member returns have a hash that is not the empty string.\<close>

definition pivotHashes :: "Client \<Rightarrow> bool" where
  "pivotHashes cfx \<longleftrightarrow>
     (\<forall>ep block. GetBlockByEpoch cfx ep = Inr block \<longrightarrow> Hash block \<noteq> '''')"

text \<open>
  The cursor is at least as far above the starting epoch as the history is long, read
  as natural numbers.
\<close>

definition cursorInv :: "uint64 \<Rightarrow> handler \<Rightarrow> bool" where
  "cursorInv startEpoch h \<longleftrightarrow>
     unat startEpoch + length (epochBlockHashList h) \<le> unat (fromEpoch h)"

text \<open>
  The member does not report the largest \<open>uint64\<close> as the latest epoch number, so
  that a cursor it lets advance is not the largest \<open>uint64\<close>.
\<close>

definition noWrap :: "Client \<Rightarrow> bool" where
  "noWrap cfx =
     (case GetEpochNumber cfx of
        Inl err \<Rightarrow> True
      | Inr latestEpoch \<Rightarrow> (word_of_int latestEpoch :: uint64) \<noteq> - 1)"

text \<open>
  The context carries a VIP status, or its rate registry reports an SVIP status
  greater than zero.
\<close>

definition vipAllowed :: "Context \<Rightarrow> bool" where
  "vipAllowed ctx =
     (VipStatusFromContext ctx \<noteq> None \<or>
      (case CtxKeyRateRegistry ctx of None \<Rightarrow> False | Some (svip, ok) \<Rightarrow> ok \<and> svip > 0))"

text \<open>A next handler that answers with the message itself and counts its invocations.\<close>

definition countingNext :: "nat HandleCallMsgFunc" where
  "countingNext ctx msg n = (msg, Suc n)"

section \<open>Scenarios\<close>

definition sampleTxns :: "Transaction list" where
  "sampleTxns =
     [\<lparr>TxHash = ''0xT1'', GasPrice = Some 30, MaxPriorityFeePerGas = Some 3,
       MaxFeePerGas = Some 30, ExecutedInBlock = True\<rparr>,
      \<lparr>TxHash = ''0xT2'', GasPrice = None, MaxPriorityFeePerGas = None,
       MaxFeePerGas = Some 25, ExecutedInBlock = True\<rparr>,
      \<lparr>TxHash = ''0xT3'', GasPrice = Some 12, MaxPriorityFeePerGas = None,
       MaxFeePerGas = None, ExecutedInBlock = True\<rparr>,
      \<lparr>TxHash = ''0xT4'', GasPrice = None, MaxPriorityFeePerGas = None,
       MaxFeePerGas = None, ExecutedInBlock = False\<rparr>]"

definition sampleBlock :: Block where
  "sampleBlock =
     \<lparr>Hash = ''0xB1'', ParentHash = ''0xBB'', BlockNumber = Some 1000, GasUsed = Some 50,
      GasLimit = Some 100, BaseFeePerGas = Some 10, Transactions = sampleTxns\<rparr>"

definition sampleRecord :: "string \<Rightarrow> BlockPriorityFee" where
  "sampleRecord bh = \<lparr>number = 1, hash = bh, baseFee = Some 10, gasUsedRatio = 0, txnTips = []\<rparr>"

text \<open>A member that cannot be reached, one that rejects every request, and a node.\<close>

definition failingClient :: "error \<Rightarrow> Client" where
  "failingClient err =
     \<lparr>GetEpochNumber = Inl err, GetBlockByEpoch = (\<lambda>ep. Inl err),
      GetBlocksByEpoch = (\<lambda>ep. Inl err),
      GetBlockByHashWithPivotAssumption = (\<lambda>bh ph ep. Inl err),
      GetBlockSummaryByEpoch = Inl err, GetMaxPriorityFeePerGas = Inl err\<rparr>"

definition nodeClient :: "int \<Rightarrow> Block \<Rightarrow> Hash list \<Rightarrow> Client" where
  "nodeClient latestEpoch pivotBlock blockHashes =
     \<lparr>GetEpochNumber = Inr latestEpoch, GetBlockByEpoch = (\<lambda>ep. Inr pivotBlock),
      GetBlocksByEpoch = (\<lambda>ep. Inr blockHashes),
      GetBlockByHashWithPivotAssumption = (\<lambda>bh ph ep. Inl (PlainError ''unknown block'')),
      GetBlockSummaryByEpoch = Inr \<lparr>SummaryBaseFeePerGas = Some 10\<rparr>,
      GetMaxPriorityFeePerGas = Inl (PlainError ''oracle unavailable'')\<rparr>"

definition sampleCluster :: "Client list" where
  "sampleCluster =
     [failingClient (PlainError ''connection refused''), failingClient (PlainError ''timeout''),
      nodeClient 50 sampleBlock [''0xB1'']]"

definition syncedHandler :: "Hash list list \<Rightarrow> handler" where
  "syncedHandler history =
     \<lparr>status = Some StationStatusOk, cliIndex = 0, fromEpoch = 100,
      epochBlockHashList = history,
      window = \<lparr>capacity = 5,
                records = [sampleRecord ''0x98'', sampleRecord ''0xA9'', sampleRecord ''0xAA'']\<rparr>\<rparr>"

definition sampleStats :: "int list option \<Rightarrow> GasStats" where
  "sampleStats estimates =
     \<lparr>AvgPercentiledPriorityFee = estimates, NetworkCongestion = 1 / 2,
      LatestPriorityFeeRange = [2, 4], HistoricalPriorityFeeRange = [1, 4],
      HistoricalBaseFeeRange = [10, 12], PriorityFeeTrend = Rising, BaseFeeTrend = Flat\<rparr>"

definition sampleConf :: accessControlConfig where
  "sampleConf = \<lparr>VipOnlyAcl = [''cfx_getLogs'', ''trace_block'']\<rparr>"

definition sampleMsg :: "string \<Rightarrow> JsonRpcMessage" where
  "sampleMsg m = \<lparr>ID = ''1'', Method = m, Params = ''[]'', Error = None\<rparr>"


section \<open>Frame lemmas\<close>

lemma trySync_error_unchanged:
  "trySync cfx h = Returned (h', isComplete, Some e) \<Longrightarrow> h' = h \<and> \<not> isComplete"
  unfolding trySync_def
  by (auto simp: Let_def split: sum.splits outcome.splits if_splits prod.splits)

lemma not_stops_unchanged:
  "trySync cfx h = Returned (h', isComplete, err) \<Longrightarrow> \<not> stops err \<Longrightarrow> h' = h \<and> \<not> isComplete"
  by (cases err) (auto simp: stops_def dest: trySync_error_unchanged)

lemma handleBlock_frame:
  "handleBlock block h = Returned h' \<Longrightarrow>
   status h' = status h \<and> cliIndex h' = cliIndex h \<and> fromEpoch h' = fromEpoch h \<and>
   epochBlockHashList h' = epochBlockHashList h"
  by (auto simp: handleBlock_def Let_def split: option.splits outcome.splits)

lemma handleBlocks_frame:
  "handleBlocks blocks h = Returned h' \<Longrightarrow>
   status h' = status h \<and> cliIndex h' = cliIndex h \<and> fromEpoch h' = fromEpoch h \<and>
   epochBlockHashList h' = epochBlockHashList h"
proof (induction blocks arbitrary: h)
  case Nil
  then show ?case by simp
next
  case (Cons block blocks)
  then obtain h1 where h1: "handleBlock block h = Returned h1" "handleBlocks blocks h1 = Returned h'"
    by (auto split: outcome.splits)
  from Cons.IH [OF h1(2)] handleBlock_frame [OF h1(1)] show ?case by simp
qed

section \<open>Failover\<close>

lemma walk_next_neq:
  fixes start :: nat
  assumes "start < n" "0 < q" "q < n"
  shows "(start + q) mod n \<noteq> start"
proof (cases "start + q < n")
  case True
  then show ?thesis using assms by simp
next
  case False
  then have "(start + q) mod n = (start + q - n) mod n" by (simp add: le_mod_geq)
  also have "\<dots> = start + q - n" using assms by simp
  finally show ?thesis using assms False by simp
qed

lemma walk_wrap:
  fixes start :: nat
  assumes "start < n" "Suc p = n"
  shows "Suc (start + p) mod n = start"
proof -
  have e: "Suc (start + p) = start + n" using assms by simp
  have "Suc (start + p) mod n = (start + n) mod n" by (simp only: e)
  also have "\<dots> = start" using assms by simp
  finally show ?thesis .
qed

lemma syncLoop_walk:
  "p + Suc m = length clients \<Longrightarrow> start < length clients \<Longrightarrow> cliIndex h = start \<Longrightarrow>
   syncLoop clients ((start + p) mod length clients) h tried =
     Some (syncWalk clients h tried (map (\<lambda>k. (start + k) mod length clients) [p..<length clients]))"
proof (induction m arbitrary: p h tried)
  case 0
  then have p: "p = length clients - 1" and n: "0 < length clients" by auto
  have l: "[p..<length clients] = [p]" using 0 by (simp add: upt_rec)
  have bnd: "(start + p) mod length clients < length clients" using n by simp
  have nxt: "((start + p) mod length clients + 1) mod length clients = start"
    using 0 walk_wrap [of start "length clients" p] by (simp add: mod_Suc_eq)
  show ?case
    apply (subst syncLoop.simps)
    using 0 l nxt bnd
    by (auto simp: stops_def Let_def split: outcome.splits option.splits dest!: trySync_error_unchanged)
next
  case (Suc m)
  let ?n = "length clients"
  have lt: "Suc p < ?n" using Suc.prems by linarith
  have l: "[p..<?n] = p # [Suc p..<?n]" using lt by (simp add: upt_rec)
  have ne: "[Suc p..<?n] \<noteq> []" using lt by auto
  have "0 < ?n" using Suc.prems by linarith
  then have bnd: "(?n \<le> (start + p) mod ?n) = False" by (simp add: not_le)
  have nxt: "((start + p) mod ?n + 1) mod ?n = (start + Suc p) mod ?n"
    by (simp add: mod_Suc_eq)
  have neq: "(start + Suc p) mod ?n \<noteq> start"
    using walk_next_neq [of start ?n "Suc p"] Suc.prems lt by simp
  have IH: "\<And>h' tried'. cliIndex h' = start \<Longrightarrow> syncLoop clients ((start + Suc p) mod ?n) h' tried' =
     Some (syncWalk clients h' tried' (map (\<lambda>k. (start + k) mod ?n) [Suc p..<?n]))"
    using Suc.IH [of "Suc p"] Suc.prems by simp
  show ?case
    apply (subst syncLoop.simps)
    using Suc.prems l ne nxt neq IH
    by (auto simp: bnd stops_def Let_def split: outcome.splits option.splits dest!: trySync_error_unchanged)
qed

lemma syncWalk_char:
  "is \<noteq> [] \<Longrightarrow>
   \<exists>k. 1 \<le> k \<and> k \<le> length is \<and>
       snd (syncWalk clients h tried is) = tried @ take k is \<and>
       (\<forall>j. j < k - 1 \<longrightarrow> attemptFails (clients ! (is ! j)) h) \<and>
       finalOutcome clients h (is ! (k - 1)) (k = length is) (fst (syncWalk clients h tried is))"
proof (induction "is" arbitrary: tried)
  case Nil
  then show ?case by simp
next
  case (Cons i rest)
  show ?case
  proof (cases "trySync (clients ! i) h")
    case Panicked
    then have "1 \<le> (1::nat) \<and> 1 \<le> length (i # rest) \<and>
       snd (syncWalk clients h tried (i # rest)) = tried @ take 1 (i # rest) \<and>
       (\<forall>j. j < (1::nat) - 1 \<longrightarrow> attemptFails (clients ! ((i # rest) ! j)) h) \<and>
       finalOutcome clients h ((i # rest) ! (1 - 1)) (1 = length (i # rest)) (fst (syncWalk clients h tried (i # rest)))"
      by (simp add: finalOutcome_def)
    then show ?thesis by blast
  next
    case (Returned r)
    obtain h' isComplete err where r: "r = (h', isComplete, err)" by (cases r) auto
    show ?thesis
    proof (cases "stops err \<or> rest = []")
      case True
      then have "1 \<le> (1::nat) \<and> 1 \<le> length (i # rest) \<and>
       snd (syncWalk clients h tried (i # rest)) = tried @ take 1 (i # rest) \<and>
       (\<forall>j. j < (1::nat) - 1 \<longrightarrow> attemptFails (clients ! ((i # rest) ! j)) h) \<and>
       finalOutcome clients h ((i # rest) ! (1 - 1)) (1 = length (i # rest)) (fst (syncWalk clients h tried (i # rest)))"
        using Returned r not_stops_unchanged [of "clients ! i" h h' isComplete err]
        by (auto simp: finalOutcome_def)
      then show ?thesis by blast
    next
      case False
      then have ns: "\<not> stops err" and ne: "rest \<noteq> []" by auto
      have same: "h' = h" using Returned r ns not_stops_unchanged by blast
      have step: "syncWalk clients h tried (i # rest) = syncWalk clients h (tried @ [i]) rest"
        using Returned r ns ne same by simp
      have fails: "attemptFails (clients ! i) h"
        using Returned r ns by (simp add: attemptFails_def)
      from Cons.IH [OF ne, of "tried @ [i]"] obtain k where k:
        "1 \<le> k" "k \<le> length rest"
        "snd (syncWalk clients h (tried @ [i]) rest) = (tried @ [i]) @ take k rest"
        "\<forall>j. j < k - 1 \<longrightarrow> attemptFails (clients ! (rest ! j)) h"
        "finalOutcome clients h (rest ! (k - 1)) (k = length rest) (fst (syncWalk clients h (tried @ [i]) rest))"
        by blast
      have a: "\<forall>j. j < Suc k - 1 \<longrightarrow> attemptFails (clients ! ((i # rest) ! j)) h"
      proof (intro allI impI)
        fix j assume "j < Suc k - 1"
        then show "attemptFails (clients ! ((i # rest) ! j)) h"
          using fails k(4) by (cases j) auto
      qed
      have b: "(i # rest) ! (Suc k - 1) = rest ! (k - 1)" using k(1) by (cases k) auto
      have "1 \<le> Suc k \<and> Suc k \<le> length (i # rest) \<and>
       snd (syncWalk clients h tried (i # rest)) = tried @ take (Suc k) (i # rest) \<and>
       (\<forall>j. j < Suc k - 1 \<longrightarrow> attemptFails (clients ! ((i # rest) ! j)) h) \<and>
       finalOutcome clients h ((i # rest) ! (Suc k - 1)) (Suc k = length (i # rest)) (fst (syncWalk clients h tried (i # rest)))"
        using k a b step by simp
      then show ?thesis by blast
    qed
  qed
qed

lemma sync_walk:
  assumes "clients \<noteq> []"
  shows "sync clients h =
     Some (syncWalk clients (h\<lparr>cliIndex := cliIndex h mod length clients\<rparr>) []
            (walk (length clients) (cliIndex h mod length clients)))"
proof -
  let ?n = "length clients"
  have n: "0 < ?n" using assms by simp
  then have "0 + Suc (?n - 1) = ?n" by simp
  from syncLoop_walk [OF this, of "cliIndex h mod ?n" "h\<lparr>cliIndex := cliIndex h mod ?n\<rparr>" "[]"] n
  show ?thesis using assms by (simp add: sync_def walk_def Let_def)
qed

lemma walk_inj_aux:
  fixes start :: nat
  assumes "a < b" "b < n" "(start + a) mod n = (start + b) mod n"
  shows False
proof -
  have "(start + b) mod n = (start + a) mod n" using assms by simp
  then have "n dvd (start + b) - (start + a)"
    using assms(1) by (simp add: mod_eq_dvd_iff_nat)
  then have "n dvd b - a" by simp
  then have "n \<le> b - a" using assms(1) by (auto dest: dvd_imp_le)
  then show False using assms(2) by simp
qed

lemma distinct_walk: "distinct (walk n start)"
proof -
  have "inj_on (\<lambda>k. (start + k) mod n) (set [0..<n])"
  proof (rule inj_onI)
    fix x y assume "x \<in> set [0..<n]" "y \<in> set [0..<n]" "(start + x) mod n = (start + y) mod n"
    then show "x = y"
      using walk_inj_aux [of x y n start] walk_inj_aux [of y x n start]
      by (cases x y rule: linorder_cases) auto
  qed
  then show ?thesis by (simp add: walk_def distinct_map)
qed

lemma length_walk: "length (walk n start) = n"
  by (simp add: walk_def)

text \<open>
  C2. For a cluster that is not empty, \<open>sync\<close> returns (its loop ends), and the
  members it tried are the first \<open>k\<close> of one pass in order from the preferred index
  with wrap-around, \<open>k\<close> between one and the size of the cluster, so that no member is
  tried twice. Every member tried before the last one failed with an error that is not
  a JSON-RPC error. The last one either stopped the failover (no error, or a JSON-RPC
  error), and \<open>sync\<close> returns its result with that member as the preferred one; or it
  failed too, the pass is then complete, and \<open>sync\<close> returns its error. A panic of
  \<open>trySync\<close> ends the attempt as a panic.
\<close>

theorem sync_failover:
  assumes "clients \<noteq> []"
  shows "\<exists>out k. sync clients h = Some (out, take k (walk (length clients) (cliIndex h mod length clients))) \<and>
       1 \<le> k \<and> k \<le> length clients \<and>
       distinct (take k (walk (length clients) (cliIndex h mod length clients))) \<and>
       (\<forall>j. j < k - 1 \<longrightarrow>
          attemptFails (clients ! (walk (length clients) (cliIndex h mod length clients) ! j))
            (h\<lparr>cliIndex := cliIndex h mod length clients\<rparr>)) \<and>
       finalOutcome clients (h\<lparr>cliIndex := cliIndex h mod length clients\<rparr>)
          (walk (length clients) (cliIndex h mod length clients) ! (k - 1)) (k = length clients) out"
proof -
  let ?n = "length clients"
  let ?w = "walk ?n (cliIndex h mod ?n)"
  let ?h = "h\<lparr>cliIndex := cliIndex h mod ?n\<rparr>"
  have ne: "?w \<noteq> []" using assms by (simp add: walk_def)
  from syncWalk_char [OF ne, of clients ?h "[]"] obtain k where k:
    "1 \<le> k" "k \<le> length ?w"
    "snd (syncWalk clients ?h [] ?w) = [] @ take k ?w"
    "\<forall>j. j < k - 1 \<longrightarrow> attemptFails (clients ! (?w ! j)) ?h"
    "finalOutcome clients ?h (?w ! (k - 1)) (k = length ?w) (fst (syncWalk clients ?h [] ?w))"
    by blast
  have "sync clients h = Some (fst (syncWalk clients ?h [] ?w), take k ?w)"
    using sync_walk [OF assms, of h] k(3) by (simp add: prod_eq_iff)
  moreover have "distinct (take k ?w)" using distinct_walk by (rule distinct_take)
  ultimately show ?thesis using k by (auto simp: length_walk)
qed

section \<open>The epoch cursor\<close>

lemma unat_dec: "(w :: uint64) \<noteq> 0 \<Longrightarrow> unat (w - 1) = unat w - 1"
  by (rule unat_minus_one)

lemma unat_inc: "(w :: uint64) \<le> l \<Longrightarrow> l \<noteq> - 1 \<Longrightarrow> unat (w + 1) = Suc (unat w)"
proof -
  assume a: "w \<le> l" "l \<noteq> - 1"
  have "w \<noteq> - 1"
  proof
    assume "w = - 1"
    then have "- 1 \<le> l" using a by simp
    then have "l = - 1" using word_n1_ge [of l] by (rule order_antisym [rotated])
    then show False using a by simp
  qed
  then have "1 + w \<noteq> 0" by (simp add: eq_neg_iff_add_eq_0 add.commute)
  then have "unat (1 + w) = Suc (unat w)" by (rule unatSuc)
  then show ?thesis by (simp add: add.commute)
qed

lemma trySync_inv:
  assumes "noWrap cfx" "cursorInv startEpoch h" "trySync cfx h = Returned (h', isComplete, err)"
  shows "cursorInv startEpoch h'"
proof (cases "GetEpochNumber cfx")
  case (Inl e)
  then show ?thesis using assms by (simp add: trySync_def)
next
  case (Inr latestEpoch)
  let ?l = "word_of_int latestEpoch :: uint64"
  have nw: "?l \<noteq> - 1" using assms(1) Inr by (simp add: noWrap_def)
  show ?thesis
  proof (cases "fromEpoch h > ?l")
    case True
    then show ?thesis using assms Inr by (simp add: trySync_def)
  next
    case False
    then have le: "fromEpoch h \<le> ?l" by simp
    show ?thesis
    proof (cases "GetBlockByEpoch cfx (fromEpoch h)")
      case (Inl e)
      then show ?thesis using assms Inr False by (simp add: trySync_def)
    next
      case pb: (Inr pivotBlock)
      show ?thesis
      proof (cases "prevEpochPivotBlockHash h")
        case Panicked
        then show ?thesis using assms Inr False pb by (simp add: trySync_def)
      next
        case (Returned prevEpochBh)
        show ?thesis
        proof (cases "length prevEpochBh > 0 \<and> prevEpochBh \<noteq> ParentHash pivotBlock")
          case True
          then have ne: "epochBlockHashList h \<noteq> []"
            using Returned by (auto simp: prevEpochPivotBlockHash_def split: if_splits)
          then have lenpos: "0 < length (epochBlockHashList h)" by simp
          then have pos: "0 < unat (fromEpoch h)" using assms(2) unfolding cursorInv_def by linarith
          then have "fromEpoch h \<noteq> 0" by auto
          then have dec: "unat (fromEpoch h - 1) = unat (fromEpoch h) - 1" by (rule unat_dec)
          have h': "h' = (handleReorg h)\<lparr>fromEpoch := fromEpoch (handleReorg h) - 1\<rparr>"
            using assms(3) Inr False pb Returned True
            by (auto simp add: trySync_def Let_def)
          have "unat startEpoch + (length (epochBlockHashList h) - 1) \<le> unat (fromEpoch h) - 1"
            using assms(2) lenpos pos unfolding cursorInv_def by linarith
          then show ?thesis using ne dec
            by (simp add: h' cursorInv_def handleReorg_def pop_def)
        next
          case nr: False
          show ?thesis
          proof (cases "fetchBlocks h cfx (fromEpoch h) pivotBlock")
            case Panicked
            then show ?thesis using assms Inr False pb Returned nr by (auto simp add: trySync_def)
          next
            case fb: (Returned r)
            show ?thesis
            proof (cases r)
              case (Inl e)
              then show ?thesis using assms Inr False pb Returned nr fb by (auto simp add: trySync_def)
            next
              case rr: (Inr bb)
              obtain blockHashes blocks where bb: "bb = (blockHashes, blocks)" by (cases bb) auto
              show ?thesis
              proof (cases "handleBlocks blocks h")
                case Panicked
                then show ?thesis using assms Inr False pb Returned nr fb rr bb
                  by (auto simp add: trySync_def)
              next
                case hb: (Returned h2)
                have inc: "unat (fromEpoch h + 1) = Suc (unat (fromEpoch h))"
                  using le nw by (rule unat_inc)
                have h': "h' = (push blockHashes h2)\<lparr>fromEpoch := fromEpoch (push blockHashes h2) + 1\<rparr>"
                  using assms(3) Inr False pb Returned nr fb rr bb hb
                  by (auto simp add: trySync_def Let_def)
                show ?thesis using assms(2) inc handleBlocks_frame [OF hb]
                  by (simp add: h' cursorInv_def push_def Let_def)
              qed
            qed
          qed
        qed
      qed
    qed
  qed
qed

lemma cursorInv_le: "cursorInv startEpoch h \<Longrightarrow> startEpoch \<le> fromEpoch h"
  by (simp add: cursorInv_def word_le_nat_alt)

section \<open>One sync step\<close>

text \<open>
  C1. Take a state of the engine: the history holds lists of block hashes ending in a
  hash that is not the empty string, and the cursor is at least as far above the
  starting epoch as the history is long (both hold in every state that a run reaches
  from the handler as it is built, over members whose pivot blocks have a hash and
  whose latest epoch number does not read as the largest \<open>uint64\<close>: see the section on
  runs). When the attempt has fetched the latest epoch
  number, which the cursor does not exceed, and the pivot block of the cursor's epoch,
  when the history is not empty and the pivot hash of its most recent entry differs
  from the parent hash of the pivot block, then \<open>trySync\<close> removes exactly the most
  recent entry from the history, leaves in the window exactly the records whose hash is
  not in that entry, and returns \<open>(false, nil)\<close>; nothing is ingested or appended. The
  cursor becomes exactly one less, as a number: it does not wrap around.
\<close>

theorem trySync_reorg:
  assumes "GetEpochNumber cfx = Inr latestEpoch"
    and "\<not> fromEpoch h > word_of_int latestEpoch"
    and "GetBlockByEpoch cfx (fromEpoch h) = Inr pivotBlock"
    and "histOK h"
    and "cursorInv startEpoch h"
    and "epochBlockHashList h \<noteq> []"
    and "last (last (epochBlockHashList h)) \<noteq> ParentHash pivotBlock"
  shows "trySync cfx h =
     Returned (h\<lparr>epochBlockHashList := butlast (epochBlockHashList h),
                 window := (window h)\<lparr>records :=
                   filter (\<lambda>r. hash r \<notin> set (last (epochBlockHashList h))) (records (window h))\<rparr>,
                 fromEpoch := fromEpoch h - 1\<rparr>, False, None) \<and>
         unat (fromEpoch h - 1) + 1 = unat (fromEpoch h)"
proof -
  have "last (epochBlockHashList h) \<in> set (epochBlockHashList h)"
    using assms(6) by simp
  then have ok: "last (epochBlockHashList h) \<noteq> []" "last (last (epochBlockHashList h)) \<noteq> ''''"
    using assms(4) by (auto simp: histOK_def)
  have "0 < length (epochBlockHashList h)" using assms(6) by simp
  then have pos: "0 < unat (fromEpoch h)" using assms(5) unfolding cursorInv_def by linarith
  then have "fromEpoch h \<noteq> 0" by auto
  then have "unat (fromEpoch h - 1) = unat (fromEpoch h) - 1" by (rule unat_dec)
  then have "unat (fromEpoch h - 1) + 1 = unat (fromEpoch h)" using pos by simp
  moreover have "trySync cfx h =
     Returned (h\<lparr>epochBlockHashList := butlast (epochBlockHashList h),
                 window := (window h)\<lparr>records :=
                   filter (\<lambda>r. hash r \<notin> set (last (epochBlockHashList h))) (records (window h))\<rparr>,
                 fromEpoch := fromEpoch h - 1\<rparr>, False, None)"
    using assms(1,2,3,6,7) ok
    by (simp add: trySync_def prevEpochPivotBlockHash_def handleReorg_def pop_def Remove_def Let_def)
  ultimately show ?thesis by simp
qed

text \<open>
  C7. When the attempt gets as far as fetching the block hashes of the epoch (the
  latest epoch and the pivot block were fetched, and no reorg was detected), and the
  last hash of the list differs from the hash of the pivot block, then \<open>fetchBlocks\<close>
  fails with the error "pivot switched" and \<open>trySync\<close> returns that error with the
  handler as it was: the cursor, the window and the history are unchanged.
\<close>

theorem trySync_pivot_switched:
  assumes "GetEpochNumber cfx = Inr latestEpoch"
    and "\<not> fromEpoch h > word_of_int latestEpoch"
    and "GetBlockByEpoch cfx (fromEpoch h) = Inr pivotBlock"
    and "prevEpochPivotBlockHash h = Returned prevEpochBh"
    and "\<not> (length prevEpochBh > 0 \<and> prevEpochBh \<noteq> ParentHash pivotBlock)"
    and "GetBlocksByEpoch cfx (fromEpoch h) = Inr blockHashes"
    and "blockHashes \<noteq> []"
    and "last blockHashes \<noteq> Hash pivotBlock"
  shows "fetchBlocks h cfx (fromEpoch h) pivotBlock = Returned (Inl (PlainError ''pivot switched'')) \<and>
         trySync cfx h = Returned (h, False, Some (PlainError ''pivot switched''))"
  using assms
  by (auto simp add: trySync_def fetchBlocks_def Let_def)

section \<open>Ingesting a block\<close>

lemma txnTip_Returned:
  "tipDerivable block txn \<Longrightarrow> \<exists>t. txnTip block txn = Returned t \<and> tipMatches block txn t"
  by (auto simp: tipDerivable_def txnTip_def tipMatches_def split: option.splits)

lemma collectTxnTips_Returned:
  "\<forall>txn \<in> set txns. IsTxExecutedInBlock txn \<longrightarrow> tipDerivable block txn \<Longrightarrow>
   \<exists>tips. collectTxnTips block txns = Returned tips \<and>
     list_all2 (\<lambda>txn t. txnHash t = TxHash txn \<and> tipMatches block txn (tip t))
       (filter IsTxExecutedInBlock txns) tips"
proof (induction txns)
  case Nil
  then show ?case by simp
next
  case (Cons txn txns)
  then obtain tips where tips: "collectTxnTips block txns = Returned tips"
     "list_all2 (\<lambda>txn t. txnHash t = TxHash txn \<and> tipMatches block txn (tip t))
       (filter IsTxExecutedInBlock txns) tips" by auto
  show ?case
  proof (cases "IsTxExecutedInBlock txn")
    case False
    then show ?thesis using tips by simp
  next
    case True
    then have "tipDerivable block txn" using Cons.prems by simp
    then obtain t where "txnTip block txn = Returned t" "tipMatches block txn t"
      using txnTip_Returned by blast
    then show ?thesis using tips True by simp
  qed
qed

text \<open>
  C8. For a block whose gas used, gas limit (not zero) and block number are present,
  and in which the tip of every executed transaction can be derived, \<open>handleBlock\<close>
  pushes one record for the block into the window, and the tip records of that record
  are, in order, those of the transactions executed in the block and of no other: each
  has the hash of its transaction, and as tip the explicit priority fee when present,
  otherwise the maximum fee per gas, or the legacy gas price when that is absent, minus
  the base fee of the block.
\<close>

theorem handleBlock_tips:
  assumes "GasUsed block = Some gasUsed" "GasLimit block = Some gasLimit" "gasLimit \<noteq> 0"
    "BlockNumber block = Some blockNumber"
    "\<forall>txn \<in> set (Transactions block). IsTxExecutedInBlock txn \<longrightarrow> tipDerivable block txn"
  shows "\<exists>blockFee. handleBlock block h = Returned (h\<lparr>window := Push blockFee (window h)\<rparr>) \<and>
           hash blockFee = Hash block \<and>
           list_all2 (\<lambda>txn t. txnHash t = TxHash txn \<and> tipMatches block txn (tip t))
             (filter IsTxExecutedInBlock (Transactions block)) (txnTips blockFee)"
proof -
  from collectTxnTips_Returned [OF assms(5)] obtain tips where
    "collectTxnTips block (Transactions block) = Returned tips"
    "list_all2 (\<lambda>txn t. txnHash t = TxHash txn \<and> tipMatches block txn (tip t))
       (filter IsTxExecutedInBlock (Transactions block)) tips" by blast
  moreover have "\<exists>q. bigDiv gasUsed gasLimit = Returned q"
    using assms(3) by (simp add: bigDiv_def)
  then obtain q where "bigDiv gasUsed gasLimit = Returned q" by blast
  ultimately have "handleBlock block h =
      Returned (h\<lparr>window := Push \<lparr>number = word_of_int blockNumber, hash = Hash block,
         baseFee = BaseFeePerGas block, gasUsedRatio = of_int q, txnTips = tips\<rparr> (window h)\<rparr>) \<and>
      hash \<lparr>number = word_of_int blockNumber, hash = Hash block,
         baseFee = BaseFeePerGas block, gasUsedRatio = of_int q, txnTips = tips\<rparr> = Hash block \<and>
      list_all2 (\<lambda>txn t. txnHash t = TxHash txn \<and> tipMatches block txn (tip t))
        (filter IsTxExecutedInBlock (Transactions block))
        (txnTips \<lparr>number = word_of_int blockNumber, hash = Hash block,
           baseFee = BaseFeePerGas block, gasUsedRatio = of_int q, txnTips = tips\<rparr>)"
    using assms(1,2,4) by (simp add: handleBlock_def Append_def Let_def)
  then show ?thesis by blast
qed

section \<open>Station status\<close>

lemma Store_Returned: "Store v h = Returned h' \<Longrightarrow> h' = h\<lparr>status := Some v\<rparr>"
  by (auto simp: Store_def split: option.splits if_splits)

text \<open>
  Whenever \<open>updateStatus\<close> returns, the status is the error when there is one and it
  is not a JSON-RPC error, and \<open>StationStatusOk\<close> otherwise, and nothing else of the
  handler has changed.
\<close>

lemma updateStatus_Returned:
  "updateStatus err h = Returned h' \<Longrightarrow>
   h' = h\<lparr>status := Some (case err of None \<Rightarrow> StationStatusOk
                               | Some e \<Rightarrow> if IsRPCJSONError e then StationStatusOk else StatusError e)\<rparr>"
  by (auto simp: updateStatus_def split: option.splits if_splits dest: Store_Returned)

lemma updateStatus_first:
  "status h = None \<Longrightarrow>
   updateStatus err h =
     Returned (h\<lparr>status := Some (case err of None \<Rightarrow> StationStatusOk
                               | Some e \<Rightarrow> if IsRPCJSONError e then StationStatusOk else StatusError e)\<rparr>)"
  by (auto simp: updateStatus_def Store_def split: option.splits)

text \<open>
  C3. The first \<open>updateStatus\<close> of a handler stores \<open>StationStatusOk\<close> for the error
  nil, as the claim says. A later \<open>updateStatus\<close> with an error of a member that is not
  a JSON-RPC error does not make that error the status: the \<open>Store\<close> of a value of
  another concrete type than the one stored first panics. The same happens the other
  way round, when an error was stored first and \<open>StationStatusOk\<close> is stored after it.
\<close>

theorem updateStatus_second_store_panics:
  "updateStatus None (newHandler 0 100 3) =
     Returned ((newHandler 0 100 3)\<lparr>status := Some StationStatusOk\<rparr>) \<and>
   updateStatus (Some (PlainError ''connection refused''))
     ((newHandler 0 100 3)\<lparr>status := Some StationStatusOk\<rparr>) = Panicked \<and>
   updateStatus (Some (PlainError ''connection refused'')) (newHandler 0 100 3) =
     Returned ((newHandler 0 100 3)\<lparr>status := Some (StatusError (PlainError ''connection refused''))\<rparr>) \<and>
   updateStatus None
     ((newHandler 0 100 3)\<lparr>status := Some (StatusError (PlainError ''connection refused''))\<rparr>) = Panicked"
  by (simp add: updateStatus_def Store_def newHandler_def)

section \<open>Suggestions\<close>

text \<open>
  With a status stored that is not \<open>StationStatusOk\<close>, \<open>Suggest\<close> returns that status
  as the error, having called no member and not having read the window.
\<close>

lemma Suggest_stored_status:
  assumes "status h = Some st" and "st \<noteq> StationStatusOk"
  shows "\<exists>err. st = StatusError err \<and> Suggest Calculate cfx h = (Returned (Inl err), [])"
  using assms by (cases st) (auto simp: Suggest_def)

text \<open>
  C9. On the handler as \<open>MustNewCfxGasStationHandlerFromViper\<close> builds it, before the
  first sync attempt has stored a status, \<open>Suggest\<close> does not return an error: the
  value loaded is nil, which is not \<open>StationStatusOk\<close>, and the type assertion
  \<open>status.(error)\<close> panics.
\<close>

theorem Suggest_before_first_store_panics:
  "status (newHandler 0 100 3) = None \<and>
   Suggest (\<lambda>w. sampleStats None) (nodeClient 200 sampleBlock [''0xB1'']) (newHandler 0 100 3) =
     (Panicked, [])"
  by (simp add: Suggest_def newHandler_def)

text \<open>
  C4 (as amended). When the status is \<open>StationStatusOk\<close> and the latest block summary
  is fetched: if the summary carries a base fee, and either the statistics of the
  window hold at least three estimates or they hold none and the live oracle answers
  with a fee (taken three times), then \<open>Suggest\<close> returns the three tiers: their
  priority fees are the first three of these fees, each maximum fee is the base fee of
  the latest block plus the tier's priority fee, the estimated base fee is that of the
  latest block, and the congestion score, the three fee ranges and the two trends are
  those of the statistics. If the statistics hold no estimate and the call of the live
  oracle fails, \<open>Suggest\<close> returns the error of that call.
\<close>

theorem Suggest_fees:
  assumes "status h = Some StationStatusOk"
    and "GetBlockSummaryByEpoch cfx = Inr latestBlock"
  shows "(\<forall>baseFeePerGas priorityFees.
       SummaryBaseFeePerGas latestBlock = Some baseFeePerGas \<and>
       ((AvgPercentiledPriorityFee (Calculate (window h)) = Some priorityFees \<and>
         length priorityFees \<ge> 3) \<or>
        (AvgPercentiledPriorityFee (Calculate (window h)) = None \<and>
         (\<exists>oracleFee. GetMaxPriorityFeePerGas cfx = Inr oracleFee \<and>
            priorityFees = [oracleFee, oracleFee, oracleFee]))) \<longrightarrow>
       (\<exists>fees. fst (Suggest Calculate cfx h) = Returned (Inr fees) \<and>
          SuggestedMaxPriorityFeePerGas (Low fees) = priorityFees ! 0 \<and>
          SuggestedMaxPriorityFeePerGas (Medium fees) = priorityFees ! 1 \<and>
          SuggestedMaxPriorityFeePerGas (High fees) = priorityFees ! 2 \<and>
          SuggestedMaxFeePerGas (Low fees) = baseFeePerGas + priorityFees ! 0 \<and>
          SuggestedMaxFeePerGas (Medium fees) = baseFeePerGas + priorityFees ! 1 \<and>
          SuggestedMaxFeePerGas (High fees) = baseFeePerGas + priorityFees ! 2 \<and>
          EstimatedBaseFee fees = Some baseFeePerGas \<and>
          NetworkCongestion' fees = NetworkCongestion (Calculate (window h)) \<and>
          LatestPriorityFeeRange' fees = LatestPriorityFeeRange (Calculate (window h)) \<and>
          HistoricalPriorityFeeRange' fees = HistoricalPriorityFeeRange (Calculate (window h)) \<and>
          HistoricalBaseFeeRange' fees = HistoricalBaseFeeRange (Calculate (window h)) \<and>
          PriorityFeeTrend' fees = PriorityFeeTrend (Calculate (window h)) \<and>
          BaseFeeTrend' fees = BaseFeeTrend (Calculate (window h)))) \<and>
     (\<forall>err. AvgPercentiledPriorityFee (Calculate (window h)) = None \<and>
            GetMaxPriorityFeePerGas cfx = Inl err \<longrightarrow>
        Suggest Calculate cfx h =
          (Returned (Inl err),
           [CallGetBlockSummaryByEpoch, ReadWindow, CallGetMaxPriorityFeePerGas]))"
  using assms
  by (auto simp: Suggest_def suggestedFees_def ToHexBigSlice_def Let_def numeral_3_eq_3)

section \<open>Runs of the engine\<close>

lemma updateStatus_frame:
  "updateStatus err h = Returned h' \<Longrightarrow>
   cliIndex h' = cliIndex h \<and> fromEpoch h' = fromEpoch h \<and>
   epochBlockHashList h' = epochBlockHashList h \<and> window h' = window h"
  by (drule updateStatus_Returned) simp

lemma walk_in_range: "i \<in> set (walk n start) \<Longrightarrow> i < n"
  by (auto simp: walk_def)

lemma sync_total: "\<exists>r. sync clients h = Some r"
proof (cases "clients = []")
  case True
  then show ?thesis by (simp add: sync_def)
next
  case False
  then show ?thesis by (simp add: sync_walk)
qed

text \<open>
  A property of the handler that every step of one member keeps, whatever the
  preferred index, is kept by the failover, by a sync attempt and by a run.
\<close>

lemma syncWalk_preserves:
  assumes step: "\<And>cfx h h' c e. Q cfx \<Longrightarrow> P h \<Longrightarrow> trySync cfx h = Returned (h', c, e) \<Longrightarrow> P h'"
    and idx: "\<And>h i. P (h\<lparr>cliIndex := i\<rparr>) = P h"
    and "\<forall>i \<in> set is. Q (clients ! i)" "P h"
    and "fst (syncWalk clients h tried is) = Returned (h', isComplete, err)"
  shows "P h'"
  using assms(3-5)
proof (induction "is" arbitrary: h tried)
  case Nil
  then show ?case by simp
next
  case (Cons i rest)
  show ?case
  proof (cases "trySync (clients ! i) h")
    case Panicked
    then show ?thesis using Cons.prems by simp
  next
    case (Returned r)
    obtain h1 c1 e1 where r: "r = (h1, c1, e1)" by (cases r) auto
    have inv1: "P h1"
      using step [of "clients ! i" h h1 c1 e1] Cons.prems Returned r by simp
    show ?thesis
    proof (cases "stops e1 \<or> rest = []")
      case True
      then show ?thesis using Cons.prems(3) Returned r inv1
        by (auto simp: idx split: if_splits)
    next
      case False
      then have "fst (syncWalk clients h1 (tried @ [i]) rest) = Returned (h', isComplete, err)"
        using Cons.prems(3) Returned r by simp
      with Cons.IH [of h1 "tried @ [i]"] Cons.prems(1) inv1 show ?thesis by simp
    qed
  qed
qed

lemma sync_preserves:
  assumes step: "\<And>cfx h h' c e. Q cfx \<Longrightarrow> P h \<Longrightarrow> trySync cfx h = Returned (h', c, e) \<Longrightarrow> P h'"
    and idx: "\<And>h i. P (h\<lparr>cliIndex := i\<rparr>) = P h"
    and "\<forall>cfx \<in> set clients. Q cfx" "P h"
    and "sync clients h = Some (Returned (h', isComplete, err), tried)"
  shows "P h'"
proof (cases "clients = []")
  case True
  then show ?thesis using assms(4,5) by (simp add: sync_def)
next
  case False
  let ?n = "length clients"
  let ?w = "walk ?n (cliIndex h mod ?n)"
  let ?h = "h\<lparr>cliIndex := cliIndex h mod ?n\<rparr>"
  have a: "\<forall>i \<in> set ?w. Q (clients ! i)"
    using assms(3) walk_in_range by auto
  have b: "P ?h" using assms(4) by (simp add: idx)
  have c: "fst (syncWalk clients ?h [] ?w) = Returned (h', isComplete, err)"
    using assms(5) sync_walk [OF False, of h] by simp
  show ?thesis by (rule syncWalk_preserves [of Q P, OF step idx a b c])
qed

lemma runSyncs_preserves:
  assumes step: "\<And>cfx h h' c e. Q cfx \<Longrightarrow> P h \<Longrightarrow> trySync cfx h = Returned (h', c, e) \<Longrightarrow> P h'"
    and idx: "\<And>h i. P (h\<lparr>cliIndex := i\<rparr>) = P h"
    and upd: "\<And>e h h'. P h \<Longrightarrow> updateStatus e h = Returned h' \<Longrightarrow> P h'"
    and "\<forall>clients \<in> set attempts. \<forall>cfx \<in> set clients. Q cfx" "P h"
  shows "\<exists>out. runSyncs attempts h = Some out \<and> (\<forall>h'. out = Returned h' \<longrightarrow> P h')"
  using assms(4,5)
proof (induction attempts arbitrary: h)
  case Nil
  then show ?case by simp
next
  case (Cons clients rest)
  obtain out tried where s: "sync clients h = Some (out, tried)"
    using sync_total [of clients h] by auto
  show ?case
  proof (cases out)
    case Panicked
    then show ?thesis using s by simp
  next
    case (Returned r)
    obtain h1 c1 e1 where r: "r = (h1, c1, e1)" by (cases r) auto
    have q: "\<forall>cfx \<in> set clients. Q cfx" using Cons.prems(1) by simp
    have s': "sync clients h = Some (Returned (h1, c1, e1), tried)" using s Returned r by simp
    have p1: "P h1"
      by (rule sync_preserves [of Q P, OF step idx q Cons.prems(2) s'])
    show ?thesis
    proof (cases "updateStatus e1 h1")
      case Panicked
      then show ?thesis using s' by simp
    next
      case (Returned h2)
      then have "P h2" using upd p1 by blast
      with Cons.IH [of h2] Cons.prems(1) show ?thesis
        using s' Returned by simp
    qed
  qed
qed

lemma cursorInv_cliIndex: "cursorInv startEpoch (h\<lparr>cliIndex := i\<rparr>) = cursorInv startEpoch h"
  by (simp add: cursorInv_def)

lemma cursorInv_updateStatus:
  "cursorInv startEpoch h \<Longrightarrow> updateStatus err h = Returned h' \<Longrightarrow> cursorInv startEpoch h'"
  by (drule updateStatus_frame) (simp add: cursorInv_def)

text \<open>
  In every state that a run reaches from the handler as it is built, the cursor is at
  least as far above the starting epoch as the history is long, as long as no member
  reports a latest epoch number that reads as the largest \<open>uint64\<close>; a chain whose
  epoch numbers are below \<open>2 ^ 64 - 1\<close> never does.
\<close>

lemma noWrap_below_max:
  assumes "GetEpochNumber cfx = Inr latestEpoch" "0 \<le> latestEpoch" "latestEpoch < 2 ^ 64 - 1"
  shows "noWrap cfx"
proof -
  have "uint (word_of_int latestEpoch :: uint64) = latestEpoch"
    using assms(2,3) by (simp add: uint_word_of_int take_bit_int_eq_self)
  moreover have "uint (- 1 :: uint64) = 2 ^ 64 - 1"
    by (simp add: unsigned_minus_1_eq_mask mask_eq_exp_minus_1)
  ultimately have "(word_of_int latestEpoch :: uint64) \<noteq> - 1" using assms(3) by auto
  then show ?thesis using assms(1) by (simp add: noWrap_def)
qed

lemma runSyncs_cursorInv:
  assumes "\<forall>clients \<in> set attempts. \<forall>cfx \<in> set clients. noWrap cfx"
  shows "\<exists>out. runSyncs attempts (newHandler cliIdx startEpoch peekCount) = Some out \<and>
           (\<forall>h. out = Returned h \<longrightarrow> cursorInv startEpoch h)"
proof -
  have b: "cursorInv startEpoch (newHandler cliIdx startEpoch peekCount)"
    by (simp add: cursorInv_def newHandler_def)
  have step: "\<And>cfx h h' c e. noWrap cfx \<Longrightarrow> cursorInv startEpoch h \<Longrightarrow>
      trySync cfx h = Returned (h', c, e) \<Longrightarrow> cursorInv startEpoch h'"
    by (rule trySync_inv)
  have idx: "\<And>h i. cursorInv startEpoch (h\<lparr>cliIndex := i\<rparr>) = cursorInv startEpoch h"
    by (rule cursorInv_cliIndex)
  have upd: "\<And>e h h'. cursorInv startEpoch h \<Longrightarrow> updateStatus e h = Returned h' \<Longrightarrow>
      cursorInv startEpoch h'"
    by (rule cursorInv_updateStatus)
  show ?thesis
    by (rule runSyncs_preserves [of noWrap "cursorInv startEpoch", OF step idx upd assms b])
qed

text \<open>
  C6. Start from the handler as it is built (the cursor at the starting epoch, the
  history empty) and run any finite sequence of sync attempts, each on any cluster,
  over a chain that has not reached the last epoch a \<open>uint64\<close> can number: no member
  reports a latest epoch number that reads as the largest \<open>uint64\<close>. Then every prefix
  of the sequence runs to its end or to a panic, and after every prefix that ends the
  cursor is not below the starting epoch: the cursor stays at least as far above the
  starting epoch as the history is long, a reorg takes one from both, and a successful
  step adds one to the cursor and at most one to the history.
\<close>

theorem cursor_not_below_start:
  assumes "\<forall>clients \<in> set attempts. \<forall>cfx \<in> set clients. noWrap cfx"
  shows "\<exists>out. runSyncs (take k attempts) (newHandler cliIdx startEpoch peekCount) = Some out \<and>
           (\<forall>h. out = Returned h \<longrightarrow>
              startEpoch \<le> fromEpoch h \<and>
              unat startEpoch + length (epochBlockHashList h) \<le> unat (fromEpoch h))"
proof -
  have a: "\<forall>clients \<in> set (take k attempts). \<forall>cfx \<in> set clients. noWrap cfx"
    using assms by (auto dest: in_set_takeD)
  from runSyncs_cursorInv [OF a, of cliIdx startEpoch peekCount] obtain out where
    "runSyncs (take k attempts) (newHandler cliIdx startEpoch peekCount) = Some out"
    "\<forall>h. out = Returned h \<longrightarrow> cursorInv startEpoch h"
    by blast
  then show ?thesis using cursorInv_le by (auto simp: cursorInv_def)
qed

text \<open>
  The history keeps holding lists that end in a hash that is not the empty string, as
  long as the pivot blocks of the members have such a hash.
\<close>

lemma fetchBlocks_Inr:
  "fetchBlocks h cfx ep pivotBlock = Returned (Inr (blockHashes, blocks)) \<Longrightarrow>
   blockHashes \<noteq> [] \<and> last blockHashes = Hash pivotBlock"
  by (auto simp: fetchBlocks_def Let_def split: sum.splits if_splits)

lemma histOK_butlast:
  "histOK h \<Longrightarrow> epochBlockHashList h' = butlast (epochBlockHashList h) \<Longrightarrow> histOK h'"
  by (auto simp: histOK_def dest: in_set_butlastD)

lemma set_tl_subset: "set (tl xs) \<subseteq> set xs"
  by (cases xs) auto

lemma histOK_push:
  assumes "histOK h" "blockHashes \<noteq> []" "last blockHashes \<noteq> ''''"
  shows "histOK (push blockHashes h)"
proof -
  have "set (epochBlockHashList (push blockHashes h)) \<subseteq> set (epochBlockHashList h @ [blockHashes])"
    using set_tl_subset [of "epochBlockHashList h @ [blockHashes]"]
    by (simp add: push_def Let_def)
  moreover have "\<forall>bhs \<in> set (epochBlockHashList h @ [blockHashes]). bhs \<noteq> [] \<and> last bhs \<noteq> ''''"
    using assms by (auto simp: histOK_def)
  ultimately show ?thesis unfolding histOK_def by blast
qed

lemma trySync_histOK:
  assumes "pivotHashes cfx" "histOK h" "trySync cfx h = Returned (h', isComplete, err)"
  shows "histOK h'"
proof (cases err)
  case (Some e)
  then show ?thesis using assms trySync_error_unchanged by blast
next
  case None
  show ?thesis
  proof (cases "isComplete")
    case True
    then have "h' = h" using assms(3) None
      by (auto simp: trySync_def Let_def split: sum.splits outcome.splits if_splits prod.splits)
    then show ?thesis using assms(2) by simp
  next
    case False
    then consider
        (reorg) "epochBlockHashList h' = butlast (epochBlockHashList h)"
      | (ingest) pivotBlock blockHashes blocks h2 where
          "GetBlockByEpoch cfx (fromEpoch h) = Inr pivotBlock"
          "fetchBlocks h cfx (fromEpoch h) pivotBlock = Returned (Inr (blockHashes, blocks))"
          "handleBlocks blocks h = Returned h2"
          "epochBlockHashList h' = epochBlockHashList (push blockHashes h2)"
      using assms(3) None
      by (auto simp: trySync_def handleReorg_def pop_def prevEpochPivotBlockHash_def Let_def
          split: sum.splits outcome.splits if_splits prod.splits)
    then show ?thesis
    proof cases
      case reorg
      then show ?thesis using assms(2) histOK_butlast by blast
    next
      case ingest
      have "Hash pivotBlock \<noteq> ''''" using assms(1) ingest(1) by (auto simp: pivotHashes_def)
      then have bh: "blockHashes \<noteq> []" "last blockHashes \<noteq> ''''"
        using fetchBlocks_Inr [OF ingest(2)] by auto
      have "histOK h2" using assms(2) handleBlocks_frame [OF ingest(3)] by (simp add: histOK_def)
      then have "histOK (push blockHashes h2)" using bh by (rule histOK_push)
      then show ?thesis using ingest(4) by (simp add: histOK_def)
    qed
  qed
qed

lemma runSyncs_histOK:
  assumes "\<forall>clients \<in> set attempts. \<forall>cfx \<in> set clients. pivotHashes cfx"
  shows "\<exists>out. runSyncs attempts (newHandler cliIdx startEpoch peekCount) = Some out \<and>
           (\<forall>h. out = Returned h \<longrightarrow> histOK h)"
proof -
  have b: "histOK (newHandler cliIdx startEpoch peekCount)"
    by (simp add: histOK_def newHandler_def)
  have step: "\<And>cfx h h' c e. pivotHashes cfx \<Longrightarrow> histOK h \<Longrightarrow>
      trySync cfx h = Returned (h', c, e) \<Longrightarrow> histOK h'"
    by (rule trySync_histOK)
  have idx: "\<And>h i. histOK (h\<lparr>cliIndex := i\<rparr>) = histOK h"
    by (simp add: histOK_def)
  have upd: "\<And>e h h'. histOK h \<Longrightarrow> updateStatus e h = Returned h' \<Longrightarrow> histOK h'"
    by (drule updateStatus_frame) (simp add: histOK_def)
  show ?thesis
    by (rule runSyncs_preserves [of pivotHashes histOK, OF step idx upd assms b])
qed

section \<open>Access control\<close>

lemma dom_aclOf_aux: "dom (fold (\<lambda>method acl. acl(method \<mapsto> ())) ms m) = set ms \<union> dom m"
  by (induction ms arbitrary: m) auto

lemma aclOf_None: "aclOf conf m = None \<longleftrightarrow> m \<notin> set (VipOnlyAcl conf)"
  using dom_aclOf_aux [of "VipOnlyAcl conf" Map.empty] by (auto simp: aclOf_def domIff)

text \<open>
  C10. The middleware hands a call whose method is not in the VIP-only list to the next
  handler, with the same context and message. A call whose method is in the list is
  handed on in the same way when the context carries a VIP status or the rate registry
  of the context reports an SVIP status greater than zero; otherwise the answer is the
  error response "access forbidden" and the next handler is not invoked: the state is
  as it was, and a next handler that counts its invocations counts one exactly when the
  caller is allowed.
\<close>

theorem vip_only_access_control:
  "(Method msg \<notin> set (VipOnlyAcl conf) \<longrightarrow>
      MustNewVipOnlyAccessControlMiddlewareFromViper conf next ctx msg s = next ctx msg s) \<and>
   (Method msg \<in> set (VipOnlyAcl conf) \<and> vipAllowed ctx \<longrightarrow>
      MustNewVipOnlyAccessControlMiddlewareFromViper conf next ctx msg s = next ctx msg s) \<and>
   (Method msg \<in> set (VipOnlyAcl conf) \<and> \<not> vipAllowed ctx \<longrightarrow>
      MustNewVipOnlyAccessControlMiddlewareFromViper conf next ctx msg s =
        (ErrorResponse msg errAccessForbidden, s)) \<and>
   (Method msg \<in> set (VipOnlyAcl conf) \<longrightarrow>
      (snd (MustNewVipOnlyAccessControlMiddlewareFromViper conf countingNext ctx msg 0) = 1
         \<longleftrightarrow> vipAllowed ctx))"
  by (auto simp: MustNewVipOnlyAccessControlMiddlewareFromViper_def aclOf_None vipAllowed_def
      countingNext_def Let_def split: option.splits)

section \<open>The gas-used ratio\<close>

text \<open>
  C5. For the block with gas used 50 and gas limit 100, \<open>handleBlock\<close> stores the
  ratio 0, the integer quotient, and not the fraction one half.
\<close>

theorem handleBlock_ratio_is_integer_quotient:
  "handleBlock sampleBlock (newHandler 0 100 3) =
     Returned ((newHandler 0 100 3)\<lparr>window := \<lparr>capacity = 3, records =
        [\<lparr>number = 1000, hash = ''0xB1'', baseFee = Some 10, gasUsedRatio = 0,
          txnTips = [\<lparr>txnHash = ''0xT1'', tip = 3\<rparr>, \<lparr>txnHash = ''0xT2'', tip = 15\<rparr>,
                     \<lparr>txnHash = ''0xT3'', tip = 2\<rparr>]\<rparr>]\<rparr>\<rparr>) \<and>
   GasUsed sampleBlock = Some 50 \<and> GasLimit sampleBlock = Some 100 \<and> (0::rat) \<noteq> 50 / 100"
  by (simp add: sampleBlock_def sampleTxns_def newHandler_def NewPriorityFeeWindow_def
      handleBlock_def bigDiv_def IsTxExecutedInBlock_def txnTip_def Push_def Append_def Let_def)

section \<open>The scenarios, checked\<close>

theorem trySync_reorg_witness:
  "trySync (nodeClient 200 sampleBlock [''0xB1'']) (syncedHandler [[''0x98''], [''0xA9'', ''0xAA'']]) =
     Returned (\<lparr>status = Some StationStatusOk, cliIndex = 0, fromEpoch = 99,
                epochBlockHashList = [[''0x98'']],
                window = \<lparr>capacity = 5, records = [sampleRecord ''0x98'']\<rparr>\<rparr>, False, None) \<and>
   unat (99 :: uint64) + 1 = unat (100 :: uint64)"
  using trySync_reorg [of "nodeClient 200 sampleBlock [''0xB1'']" 200
      "syncedHandler [[''0x98''], [''0xA9'', ''0xAA'']]" sampleBlock 98]
  by (simp add: nodeClient_def syncedHandler_def sampleBlock_def sampleRecord_def histOK_def
      cursorInv_def)

theorem trySync_pivot_switched_witness:
  "fetchBlocks (newHandler 0 100 3) (nodeClient 200 sampleBlock [''0xB0'', ''0xC7'']) 100 sampleBlock =
      Returned (Inl (PlainError ''pivot switched'')) \<and>
   trySync (nodeClient 200 sampleBlock [''0xB0'', ''0xC7'']) (newHandler 0 100 3) =
      Returned (newHandler 0 100 3, False, Some (PlainError ''pivot switched''))"
  using trySync_pivot_switched [of "nodeClient 200 sampleBlock [''0xB0'', ''0xC7'']" 200
      "newHandler 0 100 3" sampleBlock "''''" "[''0xB0'', ''0xC7'']"]
  by (simp add: nodeClient_def newHandler_def sampleBlock_def prevEpochPivotBlockHash_def)

theorem handleBlock_tips_witness:
  "\<exists>blockFee. handleBlock sampleBlock (newHandler 0 100 3) =
       Returned ((newHandler 0 100 3)\<lparr>window := Push blockFee (window (newHandler 0 100 3))\<rparr>) \<and>
     hash blockFee = ''0xB1'' \<and>
     map txnHash (txnTips blockFee) = [''0xT1'', ''0xT2'', ''0xT3''] \<and>
     map tip (txnTips blockFee) = [3, 15, 2]"
  using handleBlock_tips [of sampleBlock 50 100 1000 "newHandler 0 100 3"]
  by (auto simp add: sampleBlock_def sampleTxns_def IsTxExecutedInBlock_def tipDerivable_def
      tipMatches_def list_all2_Cons1)

theorem Suggest_fees_counterexample:
  "status (syncedHandler []) = Some StationStatusOk \<and>
   GetBlockSummaryByEpoch (nodeClient 200 sampleBlock [''0xB1'']) = Inr \<lparr>SummaryBaseFeePerGas = Some 10\<rparr> \<and>
   AvgPercentiledPriorityFee (sampleStats None) = None \<and>
   Suggest (\<lambda>w. sampleStats None) (nodeClient 200 sampleBlock [''0xB1'']) (syncedHandler []) =
     (Returned (Inl (PlainError ''oracle unavailable'')),
      [CallGetBlockSummaryByEpoch, ReadWindow, CallGetMaxPriorityFeePerGas]) \<and>
   (\<exists>fees fees'.
      fst (Suggest (\<lambda>w. sampleStats (Some [2, 3, 4])) (nodeClient 200 sampleBlock [''0xB1''])
             (syncedHandler [])) = Returned (Inr fees) \<and>
      fst (Suggest (\<lambda>w. sampleStats (Some [2, 3, 4]))
             ((nodeClient 200 sampleBlock [''0xB1''])
                \<lparr>GetBlockSummaryByEpoch := Inr \<lparr>SummaryBaseFeePerGas = Some 11\<rparr>\<rparr>)
             (syncedHandler [])) = Returned (Inr fees') \<and>
      EstimatedBaseFee fees = Some 10 \<and> EstimatedBaseFee fees' = Some 11)"
  by (simp add: Suggest_def suggestedFees_def nodeClient_def syncedHandler_def sampleStats_def)

theorem Suggest_fees_witness:
  "(\<exists>fees. fst (Suggest (\<lambda>w. sampleStats (Some [2, 3, 4])) (nodeClient 200 sampleBlock [''0xB1'']) (syncedHandler [])) = Returned (Inr fees) \<and>
      Low fees = \<lparr>SuggestedMaxPriorityFeePerGas = 2, SuggestedMaxFeePerGas = 12\<rparr> \<and>
      Medium fees = \<lparr>SuggestedMaxPriorityFeePerGas = 3, SuggestedMaxFeePerGas = 13\<rparr> \<and>
      High fees = \<lparr>SuggestedMaxPriorityFeePerGas = 4, SuggestedMaxFeePerGas = 14\<rparr> \<and>
      EstimatedBaseFee fees = Some 10 \<and> NetworkCongestion' fees = 1 / 2 \<and> PriorityFeeTrend' fees = Rising) \<and>
   (\<exists>fees. fst (Suggest (\<lambda>w. sampleStats None)
        ((nodeClient 200 sampleBlock [''0xB1''])\<lparr>GetMaxPriorityFeePerGas := Inr 7\<rparr>) (syncedHandler [])) = Returned (Inr fees) \<and>
      Low fees = \<lparr>SuggestedMaxPriorityFeePerGas = 7, SuggestedMaxFeePerGas = 17\<rparr> \<and>
      Medium fees = \<lparr>SuggestedMaxPriorityFeePerGas = 7, SuggestedMaxFeePerGas = 17\<rparr> \<and>
      High fees = \<lparr>SuggestedMaxPriorityFeePerGas = 7, SuggestedMaxFeePerGas = 17\<rparr> \<and>
      EstimatedBaseFee fees = Some 10 \<and> HistoricalBaseFeeRange' fees = [10, 12]) \<and>
   Suggest (\<lambda>w. sampleStats None)
      ((nodeClient 200 sampleBlock [''0xB1''])\<lparr>GetMaxPriorityFeePerGas := Inl (JsonError ''method not found'')\<rparr>)
      (syncedHandler []) =
     (Returned (Inl (JsonError ''method not found'')),
      [CallGetBlockSummaryByEpoch, ReadWindow, CallGetMaxPriorityFeePerGas])"
  using Suggest_fees [of "syncedHandler []" "nodeClient 200 sampleBlock [''0xB1'']"
      "\<lparr>SummaryBaseFeePerGas = Some 10\<rparr>" "\<lambda>w. sampleStats (Some [2, 3, 4])"]
    Suggest_fees [of "syncedHandler []" "(nodeClient 200 sampleBlock [''0xB1''])\<lparr>GetMaxPriorityFeePerGas := Inr 7\<rparr>"
      "\<lparr>SummaryBaseFeePerGas = Some 10\<rparr>" "\<lambda>w. sampleStats None"]
    Suggest_fees [of "syncedHandler []"
      "(nodeClient 200 sampleBlock [''0xB1''])\<lparr>GetMaxPriorityFeePerGas := Inl (JsonError ''method not found'')\<rparr>"
      "\<lparr>SummaryBaseFeePerGas = Some 10\<rparr>" "\<lambda>w. sampleStats None"]
  by (auto simp add: nodeClient_def syncedHandler_def sampleStats_def GasFeeEstimation.equality)

theorem cursor_not_below_start_witness:
  "runSyncs (take 2 [[nodeClient 200 sampleBlock [''0xB1'']], [nodeClient 200 sampleBlock [''0xB1'']]])
     (newHandler 0 100 3) =
   Some (Returned \<lparr>status = Some StationStatusOk, cliIndex = 0, fromEpoch = 100,
      epochBlockHashList = [], window = \<lparr>capacity = 3, records = []\<rparr>\<rparr>) \<and>
   (\<exists>out. runSyncs (take 2 [[nodeClient 200 sampleBlock [''0xB1'']], [nodeClient 200 sampleBlock [''0xB1'']]])
       (newHandler 0 100 3) = Some out \<and>
       (\<forall>h. out = Returned h \<longrightarrow>
          (100 :: uint64) \<le> fromEpoch h \<and>
          unat (100 :: uint64) + length (epochBlockHashList h) \<le> unat (fromEpoch h)))"
  using cursor_not_below_start [of "[[nodeClient 200 sampleBlock [''0xB1'']], [nodeClient 200 sampleBlock [''0xB1'']]]" 2 0 100 3]
  by (simp add: noWrap_def sync_def syncLoop.simps trySync_def nodeClient_def newHandler_def sampleBlock_def sampleTxns_def
     prevEpochPivotBlockHash_def fetchBlocks_def handleBlock_def bigDiv_def updateStatus_def Store_def handleReorg_def pop_def Remove_def
      IsTxExecutedInBlock_def txnTip_def push_def Push_def Append_def maxCachedBlockHashEpochs_def NewPriorityFeeWindow_def Let_def)

theorem sync_failover_witness:
  "sync sampleCluster (newHandler 0 100 3) =
     Some (Returned ((newHandler 0 100 3)\<lparr>cliIndex := 2\<rparr>, True, None), [0, 1, 2]) \<and>
   sync [failingClient (PlainError ''connection refused''), failingClient (PlainError ''timeout''),
         failingClient (PlainError ''reset'')] (newHandler 4 100 3) =
     Some (Returned (newHandler 1 100 3, False, Some (PlainError ''connection refused'')), [1, 2, 0]) \<and>
   (\<exists>out k. sync sampleCluster (newHandler 0 100 3) =
        Some (out, take k (walk (length sampleCluster)
                (cliIndex (newHandler 0 100 3) mod length sampleCluster))) \<and>
       1 \<le> k \<and> k \<le> length sampleCluster \<and>
       distinct (take k (walk (length sampleCluster)
                (cliIndex (newHandler 0 100 3) mod length sampleCluster))) \<and>
       (\<forall>j. j < k - 1 \<longrightarrow>
          attemptFails (sampleCluster ! (walk (length sampleCluster)
                (cliIndex (newHandler 0 100 3) mod length sampleCluster) ! j))
            ((newHandler 0 100 3)\<lparr>cliIndex := cliIndex (newHandler 0 100 3) mod length sampleCluster\<rparr>)) \<and>
       finalOutcome sampleCluster
          ((newHandler 0 100 3)\<lparr>cliIndex := cliIndex (newHandler 0 100 3) mod length sampleCluster\<rparr>)
          (walk (length sampleCluster) (cliIndex (newHandler 0 100 3) mod length sampleCluster) ! (k - 1))
          (k = length sampleCluster) out)"
proof (intro conjI)
  show "sync sampleCluster (newHandler 0 100 3) =
     Some (Returned ((newHandler 0 100 3)\<lparr>cliIndex := 2\<rparr>, True, None), [0, 1, 2])"
    by (simp add: sampleCluster_def sync_def syncLoop.simps failingClient_def trySync_def
        nodeClient_def newHandler_def)
  show "sync [failingClient (PlainError ''connection refused''), failingClient (PlainError ''timeout''),
         failingClient (PlainError ''reset'')] (newHandler 4 100 3) =
     Some (Returned (newHandler 1 100 3, False, Some (PlainError ''connection refused'')), [1, 2, 0])"
    by (simp add: sync_def syncLoop.simps failingClient_def trySync_def newHandler_def)
  show "\<exists>out k. sync sampleCluster (newHandler 0 100 3) =
        Some (out, take k (walk (length sampleCluster)
                (cliIndex (newHandler 0 100 3) mod length sampleCluster))) \<and>
       1 \<le> k \<and> k \<le> length sampleCluster \<and>
       distinct (take k (walk (length sampleCluster)
                (cliIndex (newHandler 0 100 3) mod length sampleCluster))) \<and>
       (\<forall>j. j < k - 1 \<longrightarrow>
          attemptFails (sampleCluster ! (walk (length sampleCluster)
                (cliIndex (newHandler 0 100 3) mod length sampleCluster) ! j))
            ((newHandler 0 100 3)\<lparr>cliIndex := cliIndex (newHandler 0 100 3) mod length sampleCluster\<rparr>)) \<and>
       finalOutcome sampleCluster
          ((newHandler 0 100 3)\<lparr>cliIndex := cliIndex (newHandler 0 100 3) mod length sampleCluster\<rparr>)
          (walk (length sampleCluster) (cliIndex (newHandler 0 100 3) mod length sampleCluster) ! (k - 1))
          (k = length sampleCluster) out"
    by (rule sync_failover) (simp add: sampleCluster_def)
qed

theorem vip_only_access_control_witness:
  "MustNewVipOnlyAccessControlMiddlewareFromViper sampleConf countingNext
      \<lparr>VipStatusFromContext = None, CtxKeyRateRegistry = None\<rparr> (sampleMsg ''cfx_epochNumber'') 0 =
     (sampleMsg ''cfx_epochNumber'', 1) \<and>
   MustNewVipOnlyAccessControlMiddlewareFromViper sampleConf countingNext
      \<lparr>VipStatusFromContext = Some 1, CtxKeyRateRegistry = None\<rparr> (sampleMsg ''cfx_getLogs'') 0 =
     (sampleMsg ''cfx_getLogs'', 1) \<and>
   MustNewVipOnlyAccessControlMiddlewareFromViper sampleConf countingNext
      \<lparr>VipStatusFromContext = None, CtxKeyRateRegistry = Some (2, True)\<rparr> (sampleMsg ''trace_block'') 0 =
     (sampleMsg ''trace_block'', 1) \<and>
   MustNewVipOnlyAccessControlMiddlewareFromViper sampleConf countingNext
      \<lparr>VipStatusFromContext = None, CtxKeyRateRegistry = Some (0, True)\<rparr> (sampleMsg ''trace_block'') 0 =
     (\<lparr>ID = ''1'', Method = [], Params = [], Error = Some ''access forbidden''\<rparr>, 0) \<and>
   MustNewVipOnlyAccessControlMiddlewareFromViper sampleConf countingNext
      \<lparr>VipStatusFromContext = None, CtxKeyRateRegistry = None\<rparr> (sampleMsg ''cfx_getLogs'') 0 =
     (\<lparr>ID = ''1'', Method = [], Params = [], Error = Some ''access forbidden''\<rparr>, 0)"
  using vip_only_access_control [of "sampleMsg ''cfx_epochNumber''" sampleConf countingNext
      "\<lparr>VipStatusFromContext = None, CtxKeyRateRegistry = None\<rparr>" 0]
    vip_only_access_control [of "sampleMsg ''cfx_getLogs''" sampleConf countingNext
      "\<lparr>VipStatusFromContext = Some 1, CtxKeyRateRegistry = None\<rparr>" 0]
    vip_only_access_control [of "sampleMsg ''trace_block''" sampleConf countingNext
      "\<lparr>VipStatusFromContext = None, CtxKeyRateRegistry = Some (2, True)\<rparr>" 0]
    vip_only_access_control [of "sampleMsg ''trace_block''" sampleConf countingNext
      "\<lparr>VipStatusFromContext = None, CtxKeyRateRegistry = Some (0, True)\<rparr>" 0]
    vip_only_access_control [of "sampleMsg ''cfx_getLogs''" sampleConf countingNext
      "\<lparr>VipStatusFromContext = None, CtxKeyRateRegistry = None\<rparr>" 0]
  by (simp add: sampleConf_def sampleMsg_def vipAllowed_def countingNext_def ErrorResponse_def
      errAccessForbidden_def)

end
